theory Spec2Isabelle
  imports Main "HOL-Library.Word"
begin

section \<open>Oracle marketplace: the on-chain settlement core\<close>

text \<open>
  A shallow embedding of the three Move modules of the contract:
  \<^verbatim>\<open>oracle_marketplace::oracle_marketplace\<close> (services, subscriptions, settlement),
  \<^verbatim>\<open>oracle_marketplace::marketplace_treasury\<close> (treasury and collateral pool) and
  \<^verbatim>\<open>oracle_marketplace::oracle_core\<close> (queries).

  Conventions.
  \<^item> \<^verbatim>\<open>u64\<close> is \<open>64 word\<close>. Move aborts on overflow, underflow and division by
    zero; the arithmetic of the source is therefore written with the checked
    operations \<open>u64_add\<close>, \<open>u64_sub\<close>, \<open>u64_mul\<close>, \<open>u64_div\<close>.
  \<^item> An abort is a value \<open>Inl e\<close> of the result type \<open>error + 'a\<close>. A Move
    transaction that aborts commits nothing, so \<open>Inl e\<close> carries no state: the
    objects the call was given are the objects that remain.
  \<^item> A \<^verbatim>\<open>&mut\<close> parameter is returned updated; an object handed to
    \<^verbatim>\<open>transfer::public_transfer\<close> or \<^verbatim>\<open>transfer::share_object\<close> is returned together
    with its recipient.
  \<^item> The fields of a struct keep their names behind a prefix that names the struct
    (\<open>svc_\<close> OracleService, \<open>sub_\<close> Subscription, \<open>rec_\<close> QueryRecord, \<open>res_\<close>
    OracleQueryResult, \<open>qry_\<close> OracleQuery, \<open>trs_\<close> MarketplaceTreasury, \<open>cap_\<close>
    TreasuryAdminCap, \<open>pool_\<close> CollateralPool, \<open>coin_\<close> Coin, \<open>ctx_\<close> TxContext,
    \<open>clk_\<close> Clock), since several structs share field names.
\<close>

subsection \<open>Values\<close>

type_synonym u8 = "8 word"
type_synonym u64 = "64 word"
type_synonym address = "256 word"
type_synonym bytes = "u8 list"

text \<open>\<^verbatim>\<open>std::string::String\<close>: a byte vector that passed the UTF-8 check.\<close>
type_synonym String = bytes

text \<open>\<^verbatim>\<open>sui::url::Url\<close>: a wrapper around an ASCII string.\<close>
type_synonym Url = bytes

text \<open>
  An object id is derived by the ledger from the transaction digest and the number of
  objects the transaction has created so far; the derivation is a hash, modelled as a
  free constructor.
\<close>
datatype ID = derive_id bytes nat

text \<open>\<^verbatim>\<open>sui::balance::Balance<SUI>\<close> is a struct with the single field \<^verbatim>\<open>value: u64\<close>.\<close>
type_synonym Balance = u64

subsection \<open>Abort codes\<close>

text \<open>
  The error constants of the three modules (the same name in two modules is told apart
  by a prefix) and the aborts of the framework functions the modules call.
\<close>
datatype error =
    E_SERVICE_NOT_FOUND            \<comment> \<open>oracle_marketplace, 1\<close>
  | E_SERVICE_INACTIVE             \<comment> \<open>oracle_marketplace, 2\<close>
  | E_INSUFFICIENT_PAYMENT         \<comment> \<open>oracle_marketplace, 3\<close>
  | E_INSUFFICIENT_COLLATERAL      \<comment> \<open>oracle_marketplace, 4\<close>
  | E_NOT_PROVIDER                 \<comment> \<open>oracle_marketplace, 5\<close>
  | E_SUBSCRIPTION_EXPIRED         \<comment> \<open>oracle_marketplace, 6\<close>
  | E_INVALID_PRICE                \<comment> \<open>oracle_marketplace, 7\<close>
  | E_QUERY_NOT_RESOLVED           \<comment> \<open>oracle_marketplace, 8\<close>
  | E_SUBSCRIPTION_NOT_MATCH       \<comment> \<open>oracle_marketplace, 9\<close>
  | TREASURY_E_NOT_ADMIN           \<comment> \<open>marketplace_treasury, 1\<close>
  | TREASURY_E_INSUFFICIENT_BALANCE \<comment> \<open>marketplace_treasury, 2\<close>
  | TREASURY_E_COLLATERAL_NOT_FOUND \<comment> \<open>marketplace_treasury, 3\<close>
  | TREASURY_E_NOT_PROVIDER        \<comment> \<open>marketplace_treasury, 4\<close>
  | CORE_E_QUERY_NOT_FOUND         \<comment> \<open>oracle_core, 1\<close>
  | CORE_E_QUERY_ALREADY_RESOLVED  \<comment> \<open>oracle_core, 2\<close>
  | CORE_E_NOT_PROVIDER            \<comment> \<open>oracle_core, 3\<close>
  | CORE_E_INVALID_DATA            \<comment> \<open>oracle_core, 4\<close>
  | ARITHMETIC_ERROR               \<comment> \<open>u64 overflow, underflow, division by zero\<close>
  | ENotEnough                     \<comment> \<open>sui::balance::split\<close>
  | EInvalidUTF8                   \<comment> \<open>std::string::utf8\<close>
  | EInvalidASCIICharacter         \<comment> \<open>std::ascii::string\<close>
  | EFieldAlreadyExists            \<comment> \<open>sui::dynamic_field::add\<close>
  | EFieldDoesNotExist             \<comment> \<open>sui::dynamic_field::borrow_mut\<close>

subsection \<open>Checked u64 arithmetic\<close>

definition u64_add :: "u64 \<Rightarrow> u64 \<Rightarrow> error + u64" where
  "u64_add a b = (if unat a + unat b < 2 ^ 64 then Inr (a + b) else Inl ARITHMETIC_ERROR)"

definition u64_sub :: "u64 \<Rightarrow> u64 \<Rightarrow> error + u64" where
  "u64_sub a b = (if b \<le> a then Inr (a - b) else Inl ARITHMETIC_ERROR)"

definition u64_mul :: "u64 \<Rightarrow> u64 \<Rightarrow> error + u64" where
  "u64_mul a b = (if unat a * unat b < 2 ^ 64 then Inr (a * b) else Inl ARITHMETIC_ERROR)"

definition u64_div :: "u64 \<Rightarrow> u64 \<Rightarrow> error + u64" where
  "u64_div a b = (if b = 0 then Inl ARITHMETIC_ERROR else Inr (a div b))"

subsection \<open>Abort propagation\<close>

text \<open>
  A call that aborts aborts its caller: \<open>and_then m f\<close> runs \<open>f\<close> on the value of \<open>m\<close>,
  or passes the abort of \<open>m\<close> on.
\<close>
definition and_then :: "error + 'a \<Rightarrow> ('a \<Rightarrow> error + 'b) \<Rightarrow> error + 'b" where
  "and_then m f = (case m of Inl e \<Rightarrow> Inl e | Inr x \<Rightarrow> f x)"

subsection \<open>Framework objects and primitives\<close>

record TxContext =
  ctx_sender :: address
  ctx_tx_hash :: bytes
  ctx_epoch :: u64
  ctx_epoch_timestamp_ms :: u64
  ctx_ids_created :: nat

record Clock =
  clk_id :: ID
  clk_timestamp_ms :: u64

record Coin =
  coin_id :: ID
  coin_balance :: Balance

text \<open>\<^verbatim>\<open>object::new(ctx)\<close>: a fresh id, and the context counts one more object.\<close>
definition object_new :: "TxContext \<Rightarrow> ID \<times> TxContext" where
  "object_new ctx =
     (derive_id (ctx_tx_hash ctx) (ctx_ids_created ctx),
      ctx\<lparr>ctx_ids_created := ctx_ids_created ctx + 1\<rparr>)"

definition coin_value :: "Coin \<Rightarrow> u64" where
  "coin_value c = coin_balance c"

text \<open>\<^verbatim>\<open>balance::join(self, balance)\<close>: \<^verbatim>\<open>self.value = self.value + value\<close>.\<close>
definition balance_join :: "Balance \<Rightarrow> Balance \<Rightarrow> error + Balance" where
  "balance_join self b = u64_add self b"

text \<open>
  \<^verbatim>\<open>balance::split(self, value)\<close>: aborts with \<^verbatim>\<open>ENotEnough\<close> unless
  \<^verbatim>\<open>self.value >= value\<close>; returns the balance split off and what remains.
\<close>
definition balance_split :: "Balance \<Rightarrow> u64 \<Rightarrow> error + (Balance \<times> Balance)" where
  "balance_split self v = (if self \<ge> v then Inr (v, self - v) else Inl ENotEnough)"

text \<open>
  \<^verbatim>\<open>coin::take(balance, value, ctx)\<close>: a new coin holding \<^verbatim>\<open>value\<close>, taken out of
  \<^verbatim>\<open>balance\<close>. Returns the coin, the remaining balance and the context.
\<close>
definition coin_take :: "Balance \<Rightarrow> u64 \<Rightarrow> TxContext \<Rightarrow> error + (Coin \<times> Balance \<times> TxContext)" where
  "coin_take b v ctx =
     (case object_new ctx of (i, ctx') \<Rightarrow>
        and_then (balance_split b v) (\<lambda>(taken, rest).
          Inr (\<lparr>coin_id = i, coin_balance = taken\<rparr>, rest, ctx')))"

text \<open>
  \<^verbatim>\<open>coin::split(self, split_amount, ctx)\<close>: the new coin, the coin it was split
  from (with what remains) and the context.
\<close>
definition coin_split :: "Coin \<Rightarrow> u64 \<Rightarrow> TxContext \<Rightarrow> error + (Coin \<times> Coin \<times> TxContext)" where
  "coin_split self split_amount ctx =
     and_then (coin_take (coin_balance self) split_amount ctx) (\<lambda>(c, rest, ctx').
       Inr (c, self\<lparr>coin_balance := rest\<rparr>, ctx'))"

definition coin_into_balance :: "Coin \<Rightarrow> Balance" where
  "coin_into_balance c = coin_balance c"

text \<open>
  \<^verbatim>\<open>std::string::utf8(bytes)\<close> aborts unless the bytes are well-formed UTF-8
  (the byte ranges of RFC 3629: no overlong forms, no surrogates, nothing above
  U+10FFFF).
\<close>
definition is_cont :: "u8 \<Rightarrow> bool" where
  "is_cont b = (0x80 \<le> b \<and> b \<le> 0xBF)"

fun internal_check_utf8 :: "bytes \<Rightarrow> bool" where
  "internal_check_utf8 [] = True"
| "internal_check_utf8 (b0 # bs) =
     (if b0 \<le> 0x7F then internal_check_utf8 bs
      else if 0xC2 \<le> b0 \<and> b0 \<le> 0xDF then
        (case bs of
           b1 # r \<Rightarrow> is_cont b1 \<and> internal_check_utf8 r
         | _ \<Rightarrow> False)
      else if 0xE0 \<le> b0 \<and> b0 \<le> 0xEF then
        (case bs of
           b1 # b2 # r \<Rightarrow>
             (if b0 = 0xE0 then 0xA0 \<le> b1 \<and> b1 \<le> 0xBF
              else if b0 = 0xED then 0x80 \<le> b1 \<and> b1 \<le> 0x9F
              else is_cont b1)
             \<and> is_cont b2 \<and> internal_check_utf8 r
         | _ \<Rightarrow> False)
      else if 0xF0 \<le> b0 \<and> b0 \<le> 0xF4 then
        (case bs of
           b1 # b2 # b3 # r \<Rightarrow>
             (if b0 = 0xF0 then 0x90 \<le> b1 \<and> b1 \<le> 0xBF
              else if b0 = 0xF4 then 0x80 \<le> b1 \<and> b1 \<le> 0x8F
              else is_cont b1)
             \<and> is_cont b2 \<and> is_cont b3 \<and> internal_check_utf8 r
         | _ \<Rightarrow> False)
      else False)"

definition string_utf8 :: "bytes \<Rightarrow> error + String" where
  "string_utf8 bs = (if internal_check_utf8 bs then Inr bs else Inl EInvalidUTF8)"

text \<open>
  \<^verbatim>\<open>url::new_unsafe_from_bytes(bytes)\<close> is \<^verbatim>\<open>Url { url: ascii::string(bytes) }\<close>;
  \<^verbatim>\<open>ascii::string\<close> aborts unless every byte is at most \<^verbatim>\<open>0x7F\<close>.
\<close>
definition url_new_unsafe_from_bytes :: "bytes \<Rightarrow> error + Url" where
  "url_new_unsafe_from_bytes bs =
     (if list_all (\<lambda>b. b \<le> 0x7F) bs then Inr bs else Inl EInvalidASCIICharacter)"

section \<open>Module marketplace_treasury\<close>

record MarketplaceTreasury =
  trs_id :: ID
  trs_platform_balance :: Balance
  trs_admin :: address

record TreasuryAdminCap =
  cap_id :: ID
  cap_treasury_id :: ID

text \<open>
  The pool's dynamic fields (\<^verbatim>\<open>dynamic_field\<close> entries under \<^verbatim>\<open>pool.id\<close>, named by a
  service id and holding a \<^verbatim>\<open>Balance<SUI>\<close>) are the map \<open>pool_fields\<close>.
\<close>
record CollateralPool =
  pool_id :: ID
  pool_total_collateral :: Balance
  pool_fields :: "ID \<rightharpoonup> Balance"

text \<open>\<^verbatim>\<open>create_treasury\<close> shares the treasury; the model returns it beside the capability.\<close>
definition create_treasury :: "TxContext \<Rightarrow> TreasuryAdminCap \<times> MarketplaceTreasury \<times> TxContext" where
  "create_treasury ctx =
     (case object_new ctx of (treasury_id, ctx1) \<Rightarrow>
        let admin = ctx_sender ctx1;
            treasury = \<lparr>trs_id = treasury_id, trs_platform_balance = 0, trs_admin = admin\<rparr>;
            treasury_object_id = trs_id treasury
        in (case object_new ctx1 of (i, ctx2) \<Rightarrow>
              (\<lparr>cap_id = i, cap_treasury_id = treasury_object_id\<rparr>, treasury, ctx2)))"

definition deposit_platform_fee :: "MarketplaceTreasury \<Rightarrow> Coin \<Rightarrow> error + MarketplaceTreasury" where
  "deposit_platform_fee treasury payment =
     (let balance = coin_into_balance payment in
        and_then (balance_join (trs_platform_balance treasury) balance) (\<lambda>b.
          Inr (treasury\<lparr>trs_platform_balance := b\<rparr>)))"

definition withdraw_platform_funds ::
  "MarketplaceTreasury \<Rightarrow> TreasuryAdminCap \<Rightarrow> u64 \<Rightarrow> TxContext
     \<Rightarrow> error + (Coin \<times> MarketplaceTreasury \<times> TxContext)" where
  "withdraw_platform_funds treasury admin_cap amount ctx =
     (if \<not> (trs_id treasury = cap_treasury_id admin_cap) then Inl TREASURY_E_NOT_ADMIN
      else if \<not> (ctx_sender ctx = trs_admin treasury) then Inl TREASURY_E_NOT_ADMIN
      else if \<not> (trs_platform_balance treasury \<ge> amount) then Inl TREASURY_E_INSUFFICIENT_BALANCE
      else and_then (coin_take (trs_platform_balance treasury) amount ctx) (\<lambda>(c, rest, ctx').
             Inr (c, treasury\<lparr>trs_platform_balance := rest\<rparr>, ctx')))"

definition get_platform_balance :: "MarketplaceTreasury \<Rightarrow> u64" where
  "get_platform_balance treasury = trs_platform_balance treasury"

definition create_collateral_pool :: "TxContext \<Rightarrow> CollateralPool \<times> TxContext" where
  "create_collateral_pool ctx =
     (case object_new ctx of (i, ctx') \<Rightarrow>
        (\<lparr>pool_id = i, pool_total_collateral = 0, pool_fields = Map.empty\<rparr>, ctx'))"

text \<open>
  \<^verbatim>\<open>dynamic_field::exists_\<close> is \<open>pool_fields pool service_id \<noteq> None\<close>;
  \<^verbatim>\<open>borrow_mut\<close> followed by a write is an update of the entry, \<^verbatim>\<open>add\<close> a new entry.
\<close>
definition deposit_collateral :: "CollateralPool \<Rightarrow> ID \<Rightarrow> Coin \<Rightarrow> error + CollateralPool" where
  "deposit_collateral pool service_id collateral =
     (let balance = coin_into_balance collateral in
        (case pool_fields pool service_id of
           Some existing \<Rightarrow>
             and_then (balance_join existing balance) (\<lambda>b.
               Inr (pool\<lparr>pool_fields := (pool_fields pool)(service_id \<mapsto> b)\<rparr>))
         | None \<Rightarrow> Inr (pool\<lparr>pool_fields := (pool_fields pool)(service_id \<mapsto> balance)\<rparr>)))"

definition withdraw_collateral ::
  "CollateralPool \<Rightarrow> ID \<Rightarrow> address \<Rightarrow> u64 \<Rightarrow> TxContext
     \<Rightarrow> error + (Coin \<times> CollateralPool \<times> TxContext)" where
  "withdraw_collateral pool service_id provider amount ctx =
     (case pool_fields pool service_id of
        None \<Rightarrow> Inl TREASURY_E_COLLATERAL_NOT_FOUND
      | Some collateral_balance \<Rightarrow>
          (if \<not> (ctx_sender ctx = provider) then Inl TREASURY_E_NOT_PROVIDER
           else let current_amount = collateral_balance in
             if \<not> (current_amount \<ge> amount) then Inl TREASURY_E_INSUFFICIENT_BALANCE
             else and_then (coin_take collateral_balance amount ctx) (\<lambda>(c, rest, ctx').
                    Inr (c, pool\<lparr>pool_fields := (pool_fields pool)(service_id \<mapsto> rest)\<rparr>, ctx'))))"

definition get_service_collateral :: "CollateralPool \<Rightarrow> ID \<Rightarrow> u64" where
  "get_service_collateral pool service_id =
     (case pool_fields pool service_id of Some collateral \<Rightarrow> collateral | None \<Rightarrow> 0)"

definition get_total_collateral :: "CollateralPool \<Rightarrow> u64" where
  "get_total_collateral pool = pool_total_collateral pool"

section \<open>Module oracle_core\<close>

record OracleQuery =
  qry_id :: ID
  qry_query_id :: String
  qry_query_type :: String
  qry_query_params :: String
  qry_provider :: address
  qry_result :: "String option"
  qry_result_hash :: "String option"
  qry_evidence_blob_id :: "ID option"
  qry_evidence_url :: "Url option"
  qry_creator :: address
  qry_created_at :: u64
  qry_updated_at :: u64
  qry_resolved :: bool

definition create_query ::
  "bytes \<Rightarrow> bytes \<Rightarrow> bytes \<Rightarrow> address \<Rightarrow> TxContext \<Rightarrow> error + (OracleQuery \<times> TxContext)" where
  "create_query query_id query_type query_params provider ctx =
     and_then (string_utf8 query_id) (\<lambda>query_id_str.
     and_then (string_utf8 query_type) (\<lambda>query_type_str.
     and_then (string_utf8 query_params) (\<lambda>query_params_str.
       case object_new ctx of (i, ctx') \<Rightarrow>
         Inr (\<lparr>qry_id = i,
               qry_query_id = query_id_str,
               qry_query_type = query_type_str,
               qry_query_params = query_params_str,
               qry_provider = provider,
               qry_result = None,
               qry_result_hash = None,
               qry_evidence_blob_id = None,
               qry_evidence_url = None,
               qry_creator = ctx_sender ctx',
               qry_created_at = ctx_epoch_timestamp_ms ctx',
               qry_updated_at = ctx_epoch_timestamp_ms ctx',
               qry_resolved = False\<rparr>, ctx'))))"

text \<open>
  The empty-result sentinel \<^verbatim>\<open>b"{}"\<close> is the byte string \<open>[0x7B, 0x7D]\<close>, the empty-hash
  sentinel \<^verbatim>\<open>b""\<close> the empty one.
\<close>
definition resolve_query_entry ::
  "OracleQuery \<Rightarrow> bytes \<Rightarrow> bytes \<Rightarrow> bytes \<Rightarrow> TxContext \<Rightarrow> error + OracleQuery" where
  "resolve_query_entry query result result_hash evidence_url_bytes ctx =
     (if \<not> (\<not> qry_resolved query) then Inl CORE_E_QUERY_ALREADY_RESOLVED
      else if \<not> (ctx_sender ctx = qry_provider query) then Inl CORE_E_NOT_PROVIDER
      else
        and_then (if length result = 0 then string_utf8 [0x7B, 0x7D]
                  else string_utf8 result) (\<lambda>result_str.
        and_then (if length result_hash = 0 then string_utf8 []
                  else string_utf8 result_hash) (\<lambda>hash_str.
        and_then (url_new_unsafe_from_bytes evidence_url_bytes) (\<lambda>evidence_url.
          Inr (query\<lparr>qry_result := Some result_str,
                     qry_result_hash := Some hash_str,
                     qry_evidence_url := Some evidence_url,
                     qry_resolved := True,
                     qry_updated_at := ctx_epoch_timestamp_ms ctx\<rparr>)))))"

definition update_query_data ::
  "OracleQuery \<Rightarrow> bytes \<Rightarrow> bytes \<Rightarrow> bytes \<Rightarrow> TxContext \<Rightarrow> error + OracleQuery" where
  "update_query_data query result result_hash evidence_url_bytes ctx =
     (if \<not> (ctx_sender ctx = qry_provider query) then Inl CORE_E_NOT_PROVIDER
      else
        and_then (if length result = 0 then string_utf8 [0x7B, 0x7D]
                  else string_utf8 result) (\<lambda>result_str.
        and_then (if length result_hash = 0 then string_utf8 []
                  else string_utf8 result_hash) (\<lambda>hash_str.
        and_then (url_new_unsafe_from_bytes evidence_url_bytes) (\<lambda>evidence_url.
          Inr (query\<lparr>qry_result := Some result_str,
                     qry_result_hash := Some hash_str,
                     qry_evidence_url := Some evidence_url,
                     qry_resolved := True,
                     qry_updated_at := ctx_epoch_timestamp_ms ctx\<rparr>)))))"

definition get_result :: "OracleQuery \<Rightarrow> String option" where
  "get_result query = qry_result query"

definition get_result_hash :: "OracleQuery \<Rightarrow> String option" where
  "get_result_hash query = qry_result_hash query"

definition is_resolved :: "OracleQuery \<Rightarrow> bool" where
  "is_resolved query = qry_resolved query"

definition get_query_id :: "OracleQuery \<Rightarrow> String" where
  "get_query_id query = qry_query_id query"

section \<open>Module oracle_marketplace\<close>

record OracleService =
  svc_id :: ID
  svc_provider :: address
  svc_name :: String
  svc_service_type :: String
  svc_description :: String
  svc_price_per_query :: u64
  svc_collateral :: u64
  svc_total_queries :: u64
  svc_successful_queries :: u64
  svc_config_id :: "String option"
  svc_documentation_url :: "Url option"
  svc_active :: bool
  svc_created_at :: u64

record Subscription =
  sub_id :: ID
  sub_subscriber :: address
  sub_service_id :: ID
  sub_start_time :: u64
  sub_end_time :: u64
  sub_active :: bool
  sub_created_at :: u64

record QueryRecord =
  rec_id :: ID
  rec_query_id :: String
  rec_service_id :: ID
  rec_requester :: address
  rec_payment :: u64
  rec_query_time :: u64
  rec_success :: bool

record OracleQueryResult =
  res_query_id :: String
  res_result :: String
  res_result_hash :: String
  res_query_time :: u64

definition PLATFORM_FEE_BPS :: u64 where
  "PLATFORM_FEE_BPS = 300"

definition MIN_COLLATERAL :: u64 where
  "MIN_COLLATERAL = 10000000"

definition DEFAULT_SUBSCRIPTION_DURATION :: u64 where
  "DEFAULT_SUBSCRIPTION_DURATION = 30 * 24 * 60 * 60 * 1000"

subsection \<open>Service management\<close>

text \<open>
  \<^verbatim>\<open>create_service_simple\<close> returns nothing: it shares the service and sends the
  collateral coin back to the sender. The model returns both, and the context.
\<close>
record simple_service_outcome =
  shared_service :: OracleService
  returned_collateral :: "Coin \<times> address"
  simple_ctx :: TxContext

definition create_service_simple ::
  "bytes \<Rightarrow> bytes \<Rightarrow> bytes \<Rightarrow> u64 \<Rightarrow> Coin \<Rightarrow> TxContext \<Rightarrow> error + simple_service_outcome" where
  "create_service_simple name service_type description price_per_query collateral ctx =
     (if \<not> (price_per_query > 0) then Inl E_INVALID_PRICE
      else let collateral_amount = coin_value collateral in
      if \<not> (collateral_amount \<ge> MIN_COLLATERAL) then Inl E_INSUFFICIENT_COLLATERAL
      else case object_new ctx of (i, ctx') \<Rightarrow>
        and_then (string_utf8 name) (\<lambda>name_str.
        and_then (string_utf8 service_type) (\<lambda>service_type_str.
        and_then (string_utf8 description) (\<lambda>description_str.
          let service = \<lparr>svc_id = i,
                          svc_provider = ctx_sender ctx',
                          svc_name = name_str,
                          svc_service_type = service_type_str,
                          svc_description = description_str,
                          svc_price_per_query = price_per_query,
                          svc_collateral = collateral_amount,
                          svc_total_queries = 0,
                          svc_successful_queries = 0,
                          svc_config_id = None,
                          svc_documentation_url = None,
                          svc_active = True,
                          svc_created_at = ctx_epoch_timestamp_ms ctx'\<rparr>
          in Inr \<lparr>shared_service = service,
                   returned_collateral = (collateral, ctx_sender ctx'),
                   simple_ctx = ctx'\<rparr>))))"

definition create_service_with_pool ::
  "bytes \<Rightarrow> bytes \<Rightarrow> bytes \<Rightarrow> u64 \<Rightarrow> Coin \<Rightarrow> CollateralPool \<Rightarrow> String option \<Rightarrow> Url option
     \<Rightarrow> TxContext \<Rightarrow> error + (OracleService \<times> CollateralPool \<times> TxContext)" where
  "create_service_with_pool name service_type description price_per_query collateral
       collateral_pool config_id documentation_url ctx =
     (if \<not> (price_per_query > 0) then Inl E_INVALID_PRICE
      else let collateral_amount = coin_value collateral in
      if \<not> (collateral_amount \<ge> MIN_COLLATERAL) then Inl E_INSUFFICIENT_COLLATERAL
      else case object_new ctx of (i, ctx') \<Rightarrow>
        and_then (string_utf8 name) (\<lambda>name_str.
        and_then (string_utf8 service_type) (\<lambda>service_type_str.
        and_then (string_utf8 description) (\<lambda>description_str.
          let service = \<lparr>svc_id = i,
                          svc_provider = ctx_sender ctx',
                          svc_name = name_str,
                          svc_service_type = service_type_str,
                          svc_description = description_str,
                          svc_price_per_query = price_per_query,
                          svc_collateral = collateral_amount,
                          svc_total_queries = 0,
                          svc_successful_queries = 0,
                          svc_config_id = config_id,
                          svc_documentation_url = documentation_url,
                          svc_active = True,
                          svc_created_at = ctx_epoch_timestamp_ms ctx'\<rparr>;
              service_id = svc_id service
          in and_then (deposit_collateral collateral_pool service_id collateral) (\<lambda>pool'.
               Inr (service, pool', ctx'))))))"

text \<open>
  \<^verbatim>\<open>create_service_entry\<close> transfers the service to the sender; the model returns the
  service with its recipient.
\<close>
definition create_service_entry ::
  "bytes \<Rightarrow> bytes \<Rightarrow> bytes \<Rightarrow> u64 \<Rightarrow> Coin \<Rightarrow> CollateralPool \<Rightarrow> TxContext
     \<Rightarrow> error + ((OracleService \<times> address) \<times> CollateralPool \<times> TxContext)" where
  "create_service_entry name service_type description price_per_query collateral
       collateral_pool ctx =
     and_then (create_service_with_pool name service_type description price_per_query
                 collateral collateral_pool None None ctx) (\<lambda>(service, pool', ctx').
       Inr ((service, ctx_sender ctx'), pool', ctx'))"

text \<open>
  \<^verbatim>\<open>withdraw_collateral_entry\<close> transfers the coin to \<^verbatim>\<open>recipient\<close>; the model
  returns the coin with its recipient.
\<close>
definition withdraw_collateral_entry ::
  "OracleService \<Rightarrow> CollateralPool \<Rightarrow> u64 \<Rightarrow> address \<Rightarrow> TxContext
     \<Rightarrow> error + ((Coin \<times> address) \<times> CollateralPool \<times> TxContext)" where
  "withdraw_collateral_entry service pool amount recipient ctx =
     (if \<not> (ctx_sender ctx = svc_provider service) then Inl E_NOT_PROVIDER
      else let service_id = svc_id service in
        and_then (withdraw_collateral pool service_id (svc_provider service) amount ctx)
          (\<lambda>(coin, pool', ctx'). Inr ((coin, recipient), pool', ctx')))"

definition update_price_entry :: "OracleService \<Rightarrow> u64 \<Rightarrow> TxContext \<Rightarrow> error + OracleService" where
  "update_price_entry service new_price ctx =
     (if \<not> (ctx_sender ctx = svc_provider service) then Inl E_NOT_PROVIDER
      else if \<not> (new_price > 0) then Inl E_INVALID_PRICE
      else Inr (service\<lparr>svc_price_per_query := new_price\<rparr>))"

definition set_active_entry :: "OracleService \<Rightarrow> bool \<Rightarrow> TxContext \<Rightarrow> error + OracleService" where
  "set_active_entry service active ctx =
     (if \<not> (ctx_sender ctx = svc_provider service) then Inl E_NOT_PROVIDER
      else Inr (service\<lparr>svc_active := active\<rparr>))"

definition update_config_id_entry :: "OracleService \<Rightarrow> bytes \<Rightarrow> TxContext \<Rightarrow> error + OracleService" where
  "update_config_id_entry service config_id ctx =
     (if \<not> (ctx_sender ctx = svc_provider service) then Inl E_NOT_PROVIDER
      else and_then (string_utf8 config_id) (\<lambda>config_str.
             Inr (service\<lparr>svc_config_id := Some config_str\<rparr>)))"

definition update_documentation_url_entry ::
  "OracleService \<Rightarrow> bytes \<Rightarrow> TxContext \<Rightarrow> error + OracleService" where
  "update_documentation_url_entry service documentation_url ctx =
     (if \<not> (ctx_sender ctx = svc_provider service) then Inl E_NOT_PROVIDER
      else and_then (url_new_unsafe_from_bytes documentation_url) (\<lambda>url_obj.
             Inr (service\<lparr>svc_documentation_url := Some url_obj\<rparr>)))"

subsection \<open>Subscription management\<close>

definition create_subscription :: "OracleService \<Rightarrow> TxContext \<Rightarrow> error + (Subscription \<times> TxContext)" where
  "create_subscription service ctx =
     (if \<not> svc_active service then Inl E_SERVICE_INACTIVE
      else let start_time = ctx_epoch_timestamp_ms ctx in
        and_then (u64_add start_time DEFAULT_SUBSCRIPTION_DURATION) (\<lambda>end_time.
          case object_new ctx of (i, ctx') \<Rightarrow>
            Inr (\<lparr>sub_id = i,
                  sub_subscriber = ctx_sender ctx',
                  sub_service_id = svc_id service,
                  sub_start_time = start_time,
                  sub_end_time = end_time,
                  sub_active = True,
                  sub_created_at = start_time\<rparr>, ctx')))"

text \<open>
  \<^verbatim>\<open>create_subscription_entry\<close> transfers the subscription to the sender; the model
  returns it with its recipient.
\<close>
definition create_subscription_entry ::
  "OracleService \<Rightarrow> TxContext \<Rightarrow> error + ((Subscription \<times> address) \<times> TxContext)" where
  "create_subscription_entry service ctx =
     and_then (create_subscription service ctx) (\<lambda>(subscription, ctx').
       Inr ((subscription, ctx_sender ctx'), ctx'))"

definition is_subscription_valid :: "Subscription \<Rightarrow> u64 \<Rightarrow> bool" where
  "is_subscription_valid subscription current_time =
     (sub_active subscription \<and> current_time \<le> sub_end_time subscription)"

subsection \<open>Query execution\<close>

text \<open>
  What a successful \<^verbatim>\<open>query_oracle_sync\<close> leaves behind: the three \<^verbatim>\<open>&mut\<close>
  arguments and the context as updated, the coin transferred to the provider and the
  record transferred to the subscriber (each with its recipient), and the returned
  \<^verbatim>\<open>OracleQueryResult\<close>.
\<close>
record sync_outcome =
  out_service :: OracleService
  out_payment :: Coin
  out_treasury :: MarketplaceTreasury
  out_ctx :: TxContext
  out_provider_transfer :: "Coin \<times> address"
  out_record_transfer :: "QueryRecord \<times> address"
  out_result :: OracleQueryResult

definition query_oracle_sync ::
  "OracleService \<Rightarrow> Subscription \<Rightarrow> OracleQuery \<Rightarrow> Coin \<Rightarrow> MarketplaceTreasury \<Rightarrow> Clock
     \<Rightarrow> TxContext \<Rightarrow> error + sync_outcome" where
  "query_oracle_sync service subscription query payment treasury clock ctx =
     (if \<not> svc_active service then Inl E_SERVICE_INACTIVE
      else if \<not> sub_active subscription then Inl E_SUBSCRIPTION_EXPIRED
      else let current_time = clk_timestamp_ms clock in
      if \<not> (current_time \<le> sub_end_time subscription) then Inl E_SUBSCRIPTION_EXPIRED
      else if \<not> (sub_service_id subscription = svc_id service) then Inl E_SUBSCRIPTION_NOT_MATCH
      else if \<not> (ctx_sender ctx = sub_subscriber subscription) then Inl E_SUBSCRIPTION_EXPIRED
      else let payment_amount = coin_value payment in
      if \<not> (payment_amount \<ge> svc_price_per_query service) then Inl E_INSUFFICIENT_PAYMENT
      else if \<not> is_resolved query then Inl E_QUERY_NOT_RESOLVED
      else let fee = svc_price_per_query service in
        and_then (coin_split payment fee ctx) (\<lambda>(fee_coin, payment', ctx1).
        and_then (u64_mul fee PLATFORM_FEE_BPS) (\<lambda>scaled.
        and_then (u64_div scaled 10000) (\<lambda>platform_fee.
        and_then (u64_sub fee platform_fee) (\<lambda>provider_fee.
        and_then (coin_split fee_coin platform_fee ctx1) (\<lambda>(platform_coin, fee_coin', ctx2).
        and_then (deposit_platform_fee treasury platform_coin) (\<lambda>treasury'.
        and_then (u64_add (svc_total_queries service) 1) (\<lambda>total_queries'.
        and_then (u64_add (svc_successful_queries service) 1) (\<lambda>successful_queries'.
          let service' = service\<lparr>svc_total_queries := total_queries',
                                 svc_successful_queries := successful_queries'\<rparr>
          in case object_new ctx2 of (i, ctx3) \<Rightarrow>
            let query_record = \<lparr>rec_id = i,
                                 rec_query_id = get_query_id query,
                                 rec_service_id = svc_id service,
                                 rec_requester = sub_subscriber subscription,
                                 rec_payment = fee,
                                 rec_query_time = current_time,
                                 rec_success = True\<rparr>;
                result_option = get_result query;
                result_hash_option = get_result_hash query;
                result_str = (if result_option \<noteq> None then the result_option
                              else [0x7B, 0x7D]);
                result_hash_str = (if result_hash_option \<noteq> None then the result_hash_option
                                   else [])
            in Inr \<lparr>out_service = service',
                     out_payment = payment',
                     out_treasury = treasury',
                     out_ctx = ctx3,
                     out_provider_transfer = (fee_coin', svc_provider service),
                     out_record_transfer = (query_record, sub_subscriber subscription),
                     out_result = \<lparr>res_query_id = get_query_id query,
                                   res_result = result_str,
                                   res_result_hash = result_hash_str,
                                   res_query_time = current_time\<rparr>\<rparr>)))))))))"

section \<open>Runs of calls\<close>

subsection \<open>Calls that take a service by mutable reference\<close>

text \<open>
  The entry points that receive \<^verbatim>\<open>&mut OracleService\<close>, each with its other arguments.
  (\<^verbatim>\<open>create_subscription\<close> and \<^verbatim>\<open>withdraw_collateral_entry\<close> receive the service by
  immutable reference and cannot change it.)
\<close>
datatype service_call =
    Update_price u64 TxContext
  | Set_active bool TxContext
  | Update_config_id bytes TxContext
  | Update_documentation_url bytes TxContext
  | Query_oracle_sync Subscription OracleQuery Coin MarketplaceTreasury Clock TxContext

text \<open>The result of a call on a service: the updated service, or the abort.\<close>
fun call_result :: "OracleService \<Rightarrow> service_call \<Rightarrow> error + OracleService" where
  "call_result s (Update_price new_price ctx) = update_price_entry s new_price ctx"
| "call_result s (Set_active active ctx) = set_active_entry s active ctx"
| "call_result s (Update_config_id config_id ctx) = update_config_id_entry s config_id ctx"
| "call_result s (Update_documentation_url url ctx) = update_documentation_url_entry s url ctx"
| "call_result s (Query_oracle_sync subscription query payment treasury clock ctx) =
     and_then (query_oracle_sync s subscription query payment treasury clock ctx)
       (\<lambda>out. Inr (out_service out))"

text \<open>
  The service as the ledger holds it after the transaction: updated when the call
  returns, the service as it was when the call aborts.
\<close>
definition service_after :: "OracleService \<Rightarrow> service_call \<Rightarrow> OracleService" where
  "service_after s c = (case call_result s c of Inl e \<Rightarrow> s | Inr s' \<Rightarrow> s')"

fun run_calls :: "OracleService \<Rightarrow> service_call list \<Rightarrow> OracleService" where
  "run_calls s [] = s"
| "run_calls s (c # cs) = run_calls (service_after s c) cs"

text \<open>Whether a call is a settlement that succeeds on the service.\<close>
fun settles :: "OracleService \<Rightarrow> service_call \<Rightarrow> bool" where
  "settles s (Query_oracle_sync subscription query payment treasury clock ctx) =
     (case query_oracle_sync s subscription query payment treasury clock ctx of
        Inl e \<Rightarrow> False | Inr out \<Rightarrow> True)"
| "settles s c = False"

text \<open>The number of successful settlements in a run.\<close>
fun settlements :: "OracleService \<Rightarrow> service_call list \<Rightarrow> nat" where
  "settlements s [] = 0"
| "settlements s (c # cs) =
     (if settles s c then 1 else 0) + settlements (service_after s c) cs"

subsection \<open>Repeated updates of a query\<close>

text \<open>
  A sequence of \<^verbatim>\<open>update_query_data\<close> transactions on one query, each with its
  arguments and context; the run stops at the first abort.
\<close>
fun update_query_data_many ::
  "OracleQuery \<Rightarrow> (bytes \<times> bytes \<times> bytes \<times> TxContext) list \<Rightarrow> error + OracleQuery" where
  "update_query_data_many query [] = Inr query"
| "update_query_data_many query ((result, result_hash, evidence_url_bytes, ctx) # rest) =
     and_then (update_query_data query result result_hash evidence_url_bytes ctx)
       (\<lambda>query'. update_query_data_many query' rest)"

text \<open>
  The payloads on which the framework calls of \<^verbatim>\<open>update_query_data\<close> do not abort: result
  and hash are well-formed UTF-8, the evidence URL is ASCII.
\<close>
definition valid_payload :: "bytes \<Rightarrow> bytes \<Rightarrow> bytes \<Rightarrow> bool" where
  "valid_payload result result_hash evidence_url_bytes =
     (internal_check_utf8 result \<and> internal_check_utf8 result_hash
      \<and> list_all (\<lambda>b. b \<le> 0x7F) evidence_url_bytes)"

subsection \<open>Reachable collateral pools\<close>

text \<open>
  A pool is created by \<^verbatim>\<open>create_collateral_pool\<close> and changed by nothing but
  \<^verbatim>\<open>deposit_collateral\<close> (also through \<^verbatim>\<open>create_service_with_pool\<close>) and
  \<^verbatim>\<open>withdraw_collateral\<close> (through \<^verbatim>\<open>withdraw_collateral_entry\<close>).
\<close>
inductive reachable_pool :: "CollateralPool \<Rightarrow> bool" where
  created: "create_collateral_pool ctx = (pool, ctx') \<Longrightarrow> reachable_pool pool"
| deposited:
    "reachable_pool pool \<Longrightarrow> deposit_collateral pool service_id collateral = Inr pool'
       \<Longrightarrow> reachable_pool pool'"
| withdrawn:
    "reachable_pool pool
       \<Longrightarrow> withdraw_collateral pool service_id provider amount ctx = Inr (coin, pool', ctx')
       \<Longrightarrow> reachable_pool pool'"

section \<open>A worked scenario\<close>

text \<open>
  A service priced at 1000 with collateral 10,000,000 (as \<open>provider_ctx\<close> creates it),
  a subscriber, a resolved query and a payment of exactly 1000.
\<close>
definition scenario_ctx :: TxContext where
  "scenario_ctx = \<lparr>ctx_sender = 0xB0B, ctx_tx_hash = [7], ctx_epoch = 1,
      ctx_epoch_timestamp_ms = 5000, ctx_ids_created = 0\<rparr>"

definition provider_ctx :: TxContext where
  "provider_ctx = \<lparr>ctx_sender = 0xA11CE, ctx_tx_hash = [1], ctx_epoch = 1,
      ctx_epoch_timestamp_ms = 5000, ctx_ids_created = 0\<rparr>"

text \<open>A later transaction of the provider.\<close>
definition later_provider_ctx :: TxContext where
  "later_provider_ctx = \<lparr>ctx_sender = 0xA11CE, ctx_tx_hash = [10], ctx_epoch = 1,
      ctx_epoch_timestamp_ms = 5000, ctx_ids_created = 0\<rparr>"

definition scenario_service :: OracleService where
  "scenario_service = \<lparr>svc_id = derive_id [1] 0, svc_provider = 0xA11CE,
      svc_name = [0x42, 0x54, 0x43], svc_service_type = [0x70], svc_description = [0x64],
      svc_price_per_query = 1000, svc_collateral = 10000000,
      svc_total_queries = 0, svc_successful_queries = 0,
      svc_config_id = None, svc_documentation_url = None,
      svc_active = True, svc_created_at = 5000\<rparr>"

definition scenario_subscription :: Subscription where
  "scenario_subscription = \<lparr>sub_id = derive_id [2] 0, sub_subscriber = 0xB0B,
      sub_service_id = derive_id [1] 0, sub_start_time = 2000, sub_end_time = 2592002000,
      sub_active = True, sub_created_at = 2000\<rparr>"

definition scenario_query :: OracleQuery where
  "scenario_query = \<lparr>qry_id = derive_id [3] 0, qry_query_id = [0x71, 0x31],
      qry_query_type = [0x70], qry_query_params = [],
      qry_provider = 0xA11CE, qry_result = Some [0x7B, 0x7D], qry_result_hash = Some [],
      qry_evidence_blob_id = None, qry_evidence_url = Some [],
      qry_creator = 0xA11CE, qry_created_at = 3000, qry_updated_at = 5000,
      qry_resolved = True\<rparr>"

text \<open>The query before its provider resolved it.\<close>
definition open_query :: OracleQuery where
  "open_query = \<lparr>qry_id = derive_id [3] 0, qry_query_id = [0x71, 0x31],
      qry_query_type = [0x70], qry_query_params = [],
      qry_provider = 0xA11CE, qry_result = None, qry_result_hash = None,
      qry_evidence_blob_id = None, qry_evidence_url = None,
      qry_creator = 0xA11CE, qry_created_at = 3000, qry_updated_at = 3000,
      qry_resolved = False\<rparr>"

definition scenario_payment :: Coin where
  "scenario_payment = \<lparr>coin_id = derive_id [4] 0, coin_balance = 1000\<rparr>"

definition scenario_treasury :: MarketplaceTreasury where
  "scenario_treasury = \<lparr>trs_id = derive_id [5] 0, trs_platform_balance = 0, trs_admin = 0xAD\<rparr>"

definition scenario_clock :: Clock where
  "scenario_clock = \<lparr>clk_id = derive_id [6] 0, clk_timestamp_ms = 6000\<rparr>"

text \<open>What the settlement of the scenario leaves behind.\<close>
definition scenario_outcome :: sync_outcome where
  "scenario_outcome =
     \<lparr>out_service = scenario_service\<lparr>svc_total_queries := 1, svc_successful_queries := 1\<rparr>,
      out_payment = \<lparr>coin_id = derive_id [4] 0, coin_balance = 0\<rparr>,
      out_treasury = scenario_treasury\<lparr>trs_platform_balance := 30\<rparr>,
      out_ctx = scenario_ctx\<lparr>ctx_ids_created := 3\<rparr>,
      out_provider_transfer = (\<lparr>coin_id = derive_id [7] 0, coin_balance = 970\<rparr>, 0xA11CE),
      out_record_transfer =
        (\<lparr>rec_id = derive_id [7] 2, rec_query_id = [0x71, 0x31],
          rec_service_id = derive_id [1] 0, rec_requester = 0xB0B, rec_payment = 1000,
          rec_query_time = 6000, rec_success = True\<rparr>, 0xB0B),
      out_result = \<lparr>res_query_id = [0x71, 0x31], res_result = [0x7B, 0x7D],
          res_result_hash = [], res_query_time = 6000\<rparr>\<rparr>"

text \<open>The subscription that \<open>scenario_ctx\<close> creates on the service, at time 5000.\<close>
definition created_subscription :: Subscription where
  "created_subscription = \<lparr>sub_id = derive_id [7] 0, sub_subscriber = 0xB0B,
      sub_service_id = derive_id [1] 0, sub_start_time = 5000, sub_end_time = 2592005000,
      sub_active = True, sub_created_at = 5000\<rparr>"

text \<open>The same service priced at \<open>10^17\<close> (one hundred million SUI), and a coin of that value.\<close>
definition costly_service :: OracleService where
  "costly_service = scenario_service\<lparr>svc_price_per_query := 100000000000000000\<rparr>"

definition costly_payment :: Coin where
  "costly_payment = \<lparr>coin_id = derive_id [4] 0, coin_balance = 100000000000000000\<rparr>"

text \<open>A pool holding 10,000,000 for the service, and a collateral coin.\<close>
definition scenario_collateral :: Coin where
  "scenario_collateral = \<lparr>coin_id = derive_id [9] 0, coin_balance = 10000000\<rparr>"

definition empty_pool :: CollateralPool where
  "empty_pool = \<lparr>pool_id = derive_id [8] 0, pool_total_collateral = 0, pool_fields = Map.empty\<rparr>"

definition scenario_pool :: CollateralPool where
  "scenario_pool = \<lparr>pool_id = derive_id [8] 0, pool_total_collateral = 0,
      pool_fields = [derive_id [1] 0 \<mapsto> 10000000]\<rparr>"

text \<open>
  A run on the service: a settlement, a settlement that aborts (the query is not
  resolved), a change of the config id by the provider, a change of the price by someone
  else (which aborts), and a second settlement, paid out of a larger coin.
\<close>
definition scenario_calls :: "service_call list" where
  "scenario_calls =
     [Query_oracle_sync scenario_subscription scenario_query scenario_payment scenario_treasury
        scenario_clock scenario_ctx,
      Query_oracle_sync scenario_subscription open_query scenario_payment scenario_treasury
        scenario_clock scenario_ctx,
      Update_config_id [0x63] provider_ctx,
      Update_price 5 scenario_ctx,
      Query_oracle_sync scenario_subscription scenario_query
        (scenario_payment\<lparr>coin_balance := 2500\<rparr>) (scenario_treasury\<lparr>trs_platform_balance := 30\<rparr>)
        (scenario_clock\<lparr>clk_timestamp_ms := 7000\<rparr>) (scenario_ctx\<lparr>ctx_tx_hash := [11]\<rparr>)]"

lemmas scenario_defs = scenario_ctx_def provider_ctx_def later_provider_ctx_def
  scenario_service_def scenario_subscription_def scenario_query_def open_query_def
  scenario_payment_def scenario_treasury_def
  scenario_clock_def scenario_outcome_def scenario_collateral_def empty_pool_def
  scenario_pool_def

lemmas eval_defs = query_oracle_sync_def coin_split_def coin_take_def object_new_def
  balance_split_def coin_value_def is_resolved_def u64_mul_def u64_div_def u64_sub_def
  u64_add_def deposit_platform_fee_def balance_join_def coin_into_balance_def
  PLATFORM_FEE_BPS_def get_query_id_def get_result_def get_result_hash_def

section \<open>Basic facts\<close>

subsection \<open>Abort propagation and checked arithmetic\<close>

lemma and_then_Inl [simp]: "and_then (Inl e) f = Inl e"
  by (simp add: and_then_def)

lemma and_then_Inr [simp]: "and_then (Inr x) f = f x"
  by (simp add: and_then_def)

lemma and_then_eq_Inr: "(and_then m f = Inr y) = (\<exists>x. m = Inr x \<and> f x = Inr y)"
  by (cases m) simp_all

lemma u64_add_Inr: "u64_add a b = Inr c \<Longrightarrow> unat c = unat a + unat b"
  by (auto simp: u64_add_def unat_word_ariths split: if_splits)

lemma u64_sub_Inr: "u64_sub a b = Inr c \<Longrightarrow> unat c = unat a - unat b \<and> unat b \<le> unat a"
  by (auto simp: u64_sub_def unat_sub word_le_nat_alt split: if_splits)

lemma u64_mul_Inr: "u64_mul a b = Inr c \<Longrightarrow> unat c = unat a * unat b"
  by (auto simp: u64_mul_def unat_word_ariths split: if_splits)

lemma u64_div_Inr: "u64_div a b = Inr c \<Longrightarrow> unat c = unat a div unat b"
  by (auto simp: u64_div_def unat_div split: if_splits)

lemma balance_split_Inr:
  "balance_split b v = Inr (taken, rest) \<Longrightarrow> taken = v \<and> unat rest + unat v = unat b"
  by (auto simp: balance_split_def unat_sub word_le_nat_alt split: if_splits)

lemma coin_split_Inr:
  "coin_split c v ctx = Inr (new, c', ctx') \<Longrightarrow>
     coin_balance new = v \<and> unat (coin_balance c') + unat v = unat (coin_balance c)
     \<and> coin_id c' = coin_id c
     \<and> coin_id new = derive_id (ctx_tx_hash ctx) (ctx_ids_created ctx)
     \<and> ctx' = ctx\<lparr>ctx_ids_created := ctx_ids_created ctx + 1\<rparr>"
  by (auto simp: coin_split_def coin_take_def object_new_def and_then_eq_Inr
      dest!: balance_split_Inr)

lemma deposit_platform_fee_Inr:
  "deposit_platform_fee t c = Inr t' \<Longrightarrow>
     unat (trs_platform_balance t') = unat (trs_platform_balance t) + unat (coin_balance c)
     \<and> trs_id t' = trs_id t \<and> trs_admin t' = trs_admin t"
  by (auto simp: deposit_platform_fee_def balance_join_def coin_into_balance_def
      and_then_eq_Inr dest!: u64_add_Inr)


subsection \<open>What a successful settlement went through\<close>

lemma sync_success:
  assumes "query_oracle_sync service subscription query payment treasury clock ctx = Inr out"
  shows "\<exists>fee_coin payment' ctx1 scaled platform_fee provider_fee platform_coin fee_coin' ctx2
           treasury' total' successful'.
     svc_active service \<and> sub_active subscription
   \<and> clk_timestamp_ms clock \<le> sub_end_time subscription
   \<and> sub_service_id subscription = svc_id service
   \<and> ctx_sender ctx = sub_subscriber subscription
   \<and> svc_price_per_query service \<le> coin_value payment
   \<and> is_resolved query
   \<and> coin_split payment (svc_price_per_query service) ctx = Inr (fee_coin, payment', ctx1)
   \<and> u64_mul (svc_price_per_query service) PLATFORM_FEE_BPS = Inr scaled
   \<and> u64_div scaled 10000 = Inr platform_fee
   \<and> u64_sub (svc_price_per_query service) platform_fee = Inr provider_fee
   \<and> coin_split fee_coin platform_fee ctx1 = Inr (platform_coin, fee_coin', ctx2)
   \<and> deposit_platform_fee treasury platform_coin = Inr treasury'
   \<and> u64_add (svc_total_queries service) 1 = Inr total'
   \<and> u64_add (svc_successful_queries service) 1 = Inr successful'
   \<and> out_service out = service\<lparr>svc_total_queries := total', svc_successful_queries := successful'\<rparr>
   \<and> out_payment out = payment'
   \<and> out_treasury out = treasury'
   \<and> out_provider_transfer out = (fee_coin', svc_provider service)
   \<and> out_record_transfer out =
        (\<lparr>rec_id = derive_id (ctx_tx_hash ctx2) (ctx_ids_created ctx2),
          rec_query_id = get_query_id query,
          rec_service_id = svc_id service,
          rec_requester = sub_subscriber subscription,
          rec_payment = svc_price_per_query service,
          rec_query_time = clk_timestamp_ms clock,
          rec_success = True\<rparr>, sub_subscriber subscription)"
  using assms
  unfolding query_oracle_sync_def Let_def
  by (auto simp: and_then_eq_Inr coin_value_def object_new_def split: if_splits)

lemma platform_fee_value:
  assumes m: "u64_mul fee PLATFORM_FEE_BPS = Inr scaled"
      and d: "u64_div scaled 10000 = Inr platform_fee"
  shows "unat platform_fee = unat fee * 300 div 10000"
  using u64_mul_Inr [OF m] u64_div_Inr [OF d] by (simp add: PLATFORM_FEE_BPS_def)

text \<open>While \<open>fee * 300\<close> fits 64 bits the split is computed, and is exact.\<close>
lemma fee_split_in_range:
  assumes "unat fee * 300 < 2 ^ 64"
  shows "\<exists>scaled platform_fee provider_fee.
           u64_mul fee PLATFORM_FEE_BPS = Inr scaled
         \<and> u64_div scaled 10000 = Inr platform_fee
         \<and> u64_sub fee platform_fee = Inr provider_fee
         \<and> unat platform_fee = unat fee * 300 div 10000
         \<and> unat platform_fee + unat provider_fee = unat fee"
proof -
  have m: "u64_mul fee PLATFORM_FEE_BPS = Inr (fee * PLATFORM_FEE_BPS)"
    using assms by (simp add: u64_mul_def PLATFORM_FEE_BPS_def)
  have d: "u64_div (fee * PLATFORM_FEE_BPS) 10000 = Inr (fee * PLATFORM_FEE_BPS div 10000)"
    by (simp add: u64_div_def)
  have pf: "unat (fee * PLATFORM_FEE_BPS div 10000) = unat fee * 300 div 10000"
    by (rule platform_fee_value [OF m d])
  then have le: "fee * PLATFORM_FEE_BPS div 10000 \<le> fee"
    by (simp add: word_le_nat_alt)
  then have s: "u64_sub fee (fee * PLATFORM_FEE_BPS div 10000)
                  = Inr (fee - fee * PLATFORM_FEE_BPS div 10000)"
    by (simp add: u64_sub_def)
  from u64_sub_Inr [OF s] pf
  have "unat (fee * PLATFORM_FEE_BPS div 10000) + unat (fee - fee * PLATFORM_FEE_BPS div 10000)
          = unat fee"
    by simp
  with m d s pf show ?thesis by blast
qed

lemma scenario_run:
  "query_oracle_sync scenario_service scenario_subscription scenario_query scenario_payment
     scenario_treasury scenario_clock scenario_ctx = Inr scenario_outcome"
  by (simp add: scenario_defs eval_defs)

section \<open>Settlement\<close>

text \<open>
  Claim C1. Whenever \<^verbatim>\<open>query_oracle_sync\<close> returns, exactly
  \<^verbatim>\<open>service.price_per_query\<close> has left the payment coin (the same coin stays with the
  caller, holding the remainder); the platform balance of the treasury has grown by the
  platform fee \<open>floor (price * 300 / 10000)\<close>; a coin holding the provider fee, which
  with the platform fee makes up the price, goes to \<^verbatim>\<open>service.provider\<close>; and the record
  that is created
  has \<^verbatim>\<open>requester = subscription.subscriber\<close>, \<^verbatim>\<open>payment = service.price_per_query\<close>,
  \<^verbatim>\<open>query_time\<close> the clock's time and \<^verbatim>\<open>success = true\<close>, names the query and the
  service, and goes to the subscriber.
\<close>
theorem settlement_effects:
  assumes ok: "query_oracle_sync service subscription query payment treasury clock ctx = Inr out"
  shows "unat (coin_value (out_payment out)) + unat (svc_price_per_query service)
           = unat (coin_value payment)
       \<and> coin_id (out_payment out) = coin_id payment
       \<and> unat (get_platform_balance (out_treasury out))
           = unat (get_platform_balance treasury) + unat (svc_price_per_query service) * 300 div 10000
       \<and> snd (out_provider_transfer out) = svc_provider service
       \<and> unat (coin_value (fst (out_provider_transfer out)))
             + unat (svc_price_per_query service) * 300 div 10000
           = unat (svc_price_per_query service)
       \<and> rec_requester (fst (out_record_transfer out)) = sub_subscriber subscription
       \<and> rec_payment (fst (out_record_transfer out)) = svc_price_per_query service
       \<and> rec_query_time (fst (out_record_transfer out)) = clk_timestamp_ms clock
       \<and> rec_success (fst (out_record_transfer out)) = True
       \<and> rec_query_id (fst (out_record_transfer out)) = qry_query_id query
       \<and> rec_service_id (fst (out_record_transfer out)) = svc_id service
       \<and> snd (out_record_transfer out) = sub_subscriber subscription"
proof -
  from sync_success [OF ok] obtain fee_coin payment' ctx1 scaled platform_fee
      platform_coin fee_coin' ctx2 treasury' where
    s1: "coin_split payment (svc_price_per_query service) ctx = Inr (fee_coin, payment', ctx1)" and
    m: "u64_mul (svc_price_per_query service) PLATFORM_FEE_BPS = Inr scaled" and
    d: "u64_div scaled 10000 = Inr platform_fee" and
    s2: "coin_split fee_coin platform_fee ctx1 = Inr (platform_coin, fee_coin', ctx2)" and
    dep: "deposit_platform_fee treasury platform_coin = Inr treasury'" and
    o1: "out_payment out = payment'" and
    o2: "out_treasury out = treasury'" and
    o3: "out_provider_transfer out = (fee_coin', svc_provider service)" and
    o4: "out_record_transfer out =
        (\<lparr>rec_id = derive_id (ctx_tx_hash ctx2) (ctx_ids_created ctx2),
          rec_query_id = get_query_id query,
          rec_service_id = svc_id service,
          rec_requester = sub_subscriber subscription,
          rec_payment = svc_price_per_query service,
          rec_query_time = clk_timestamp_ms clock,
          rec_success = True\<rparr>, sub_subscriber subscription)"
    by blast
  note pf = platform_fee_value [OF m d]
  note c1 = coin_split_Inr [OF s1]
  note c2 = coin_split_Inr [OF s2]
  note dp = deposit_platform_fee_Inr [OF dep]
  have a: "unat (coin_value (out_payment out)) + unat (svc_price_per_query service)
           = unat (coin_value payment)"
    using c1 o1 by (simp add: coin_value_def)
  have b: "coin_id (out_payment out) = coin_id payment"
    using c1 o1 by simp
  have c: "unat (get_platform_balance (out_treasury out))
           = unat (get_platform_balance treasury) + unat (svc_price_per_query service) * 300 div 10000"
    using dp c2 o2 pf by (simp add: get_platform_balance_def)
  have e: "unat (coin_value (fst (out_provider_transfer out)))
             + unat (svc_price_per_query service) * 300 div 10000
           = unat (svc_price_per_query service)"
  proof -
    have "unat (coin_balance fee_coin') + unat platform_fee = unat (svc_price_per_query service)"
      using c1 c2 by simp
    then show ?thesis
      using o3 by (simp only: pf coin_value_def fst_conv)
  qed
  show ?thesis
    using a b c e o3 o4 by (simp add: get_query_id_def)
qed

text \<open>The scenario: price 1000 paid with 1000 gives 30 to the treasury and 970 to the provider.\<close>
theorem settlement_effects_witness:
  "query_oracle_sync scenario_service scenario_subscription scenario_query scenario_payment
     scenario_treasury scenario_clock scenario_ctx = Inr scenario_outcome
   \<and> unat (coin_value (out_payment scenario_outcome)) + unat (svc_price_per_query scenario_service)
        = unat (coin_value scenario_payment)
   \<and> unat (get_platform_balance (out_treasury scenario_outcome)) = 30
   \<and> out_provider_transfer scenario_outcome
        = (\<lparr>coin_id = derive_id [7] 0, coin_balance = 970\<rparr>, svc_provider scenario_service)
   \<and> rec_payment (fst (out_record_transfer scenario_outcome)) = 1000
   \<and> rec_success (fst (out_record_transfer scenario_outcome))
   \<and> snd (out_record_transfer scenario_outcome) = sub_subscriber scenario_subscription"
  using settlement_effects [OF scenario_run] scenario_run
  by (simp add: scenario_defs get_platform_balance_def)

text \<open>
  Claim C2. The fee split is \<open>platform_fee = floor (fee * 300 / 10000)\<close> and
  \<open>provider_fee = fee - platform_fee\<close> for every fee. The source computes
  \<^verbatim>\<open>fee * PLATFORM_FEE_BPS / 10000\<close> in \<^verbatim>\<open>u64\<close>, so the product overflows and the
  call aborts once the fee exceeds \<open>(2^64 - 1) div 300 = 61489146912365172\<close>: a provider
  can set the price \<open>10^17\<close>, and a subscriber who pays it in full, with every check
  passed, gets an arithmetic abort instead of a split.
\<close>
theorem fee_split_overflow:
  "update_price_entry scenario_service 100000000000000000 provider_ctx = Inr costly_service
   \<and> coin_value costly_payment = svc_price_per_query costly_service
   \<and> u64_mul (svc_price_per_query costly_service) PLATFORM_FEE_BPS = Inl ARITHMETIC_ERROR
   \<and> query_oracle_sync costly_service scenario_subscription scenario_query costly_payment
        scenario_treasury scenario_clock scenario_ctx = Inl ARITHMETIC_ERROR
   \<and> u64_mul 61489146912365172 PLATFORM_FEE_BPS = Inr 18446744073709551600
   \<and> u64_mul 61489146912365173 PLATFORM_FEE_BPS = Inl ARITHMETIC_ERROR"
  by (simp add: scenario_defs costly_service_def costly_payment_def eval_defs
      update_price_entry_def)

text \<open>
  Claim C3. \<^verbatim>\<open>query_oracle_sync\<close> checks in this order, each check reached only when
  the earlier ones passed: the service is active (else \<^verbatim>\<open>E_SERVICE_INACTIVE\<close>); the
  subscription is active and the clock is not past its end (else
  \<^verbatim>\<open>E_SUBSCRIPTION_EXPIRED\<close>); the subscription names the service (else
  \<^verbatim>\<open>E_SUBSCRIPTION_NOT_MATCH\<close>); the sender is the subscriber (else
  \<^verbatim>\<open>E_SUBSCRIPTION_EXPIRED\<close> again); the payment covers the price (else
  \<^verbatim>\<open>E_INSUFFICIENT_PAYMENT\<close>); the query is resolved (else \<^verbatim>\<open>E_QUERY_NOT_RESOLVED\<close>).
  Each failure is an abort: the call yields no updated service, payment or treasury.
\<close>
theorem check_order:
  "(\<not> svc_active service \<longrightarrow>
      query_oracle_sync service subscription query payment treasury clock ctx
        = Inl E_SERVICE_INACTIVE)
 \<and> (svc_active service
      \<and> (\<not> sub_active subscription \<or> clk_timestamp_ms clock > sub_end_time subscription) \<longrightarrow>
      query_oracle_sync service subscription query payment treasury clock ctx
        = Inl E_SUBSCRIPTION_EXPIRED)
 \<and> (svc_active service \<and> sub_active subscription
      \<and> clk_timestamp_ms clock \<le> sub_end_time subscription
      \<and> sub_service_id subscription \<noteq> svc_id service \<longrightarrow>
      query_oracle_sync service subscription query payment treasury clock ctx
        = Inl E_SUBSCRIPTION_NOT_MATCH)
 \<and> (svc_active service \<and> sub_active subscription
      \<and> clk_timestamp_ms clock \<le> sub_end_time subscription
      \<and> sub_service_id subscription = svc_id service
      \<and> ctx_sender ctx \<noteq> sub_subscriber subscription \<longrightarrow>
      query_oracle_sync service subscription query payment treasury clock ctx
        = Inl E_SUBSCRIPTION_EXPIRED)
 \<and> (svc_active service \<and> sub_active subscription
      \<and> clk_timestamp_ms clock \<le> sub_end_time subscription
      \<and> sub_service_id subscription = svc_id service
      \<and> ctx_sender ctx = sub_subscriber subscription
      \<and> coin_value payment < svc_price_per_query service \<longrightarrow>
      query_oracle_sync service subscription query payment treasury clock ctx
        = Inl E_INSUFFICIENT_PAYMENT)
 \<and> (svc_active service \<and> sub_active subscription
      \<and> clk_timestamp_ms clock \<le> sub_end_time subscription
      \<and> sub_service_id subscription = svc_id service
      \<and> ctx_sender ctx = sub_subscriber subscription
      \<and> svc_price_per_query service \<le> coin_value payment
      \<and> \<not> qry_resolved query \<longrightarrow>
      query_oracle_sync service subscription query payment treasury clock ctx
        = Inl E_QUERY_NOT_RESOLVED)"
  by (simp add: query_oracle_sync_def is_resolved_def Let_def not_le)

text \<open>
  Six inputs, each failing one check and, where possible, later ones as well: the earliest
  failing check decides the abort code.
\<close>
theorem check_order_witness:
  "query_oracle_sync (scenario_service\<lparr>svc_active := False\<rparr>)
      (scenario_subscription\<lparr>sub_active := False\<rparr>) (scenario_query\<lparr>qry_resolved := False\<rparr>)
      scenario_payment scenario_treasury scenario_clock provider_ctx = Inl E_SERVICE_INACTIVE
 \<and> query_oracle_sync scenario_service
      (scenario_subscription\<lparr>sub_service_id := derive_id [9] 9\<rparr>) scenario_query
      scenario_payment scenario_treasury (scenario_clock\<lparr>clk_timestamp_ms := 2592002001\<rparr>)
      scenario_ctx = Inl E_SUBSCRIPTION_EXPIRED
 \<and> query_oracle_sync scenario_service
      (scenario_subscription\<lparr>sub_service_id := derive_id [9] 9\<rparr>) scenario_query
      scenario_payment scenario_treasury scenario_clock provider_ctx
        = Inl E_SUBSCRIPTION_NOT_MATCH
 \<and> query_oracle_sync scenario_service scenario_subscription scenario_query
      (scenario_payment\<lparr>coin_balance := 999\<rparr>) scenario_treasury scenario_clock provider_ctx
        = Inl E_SUBSCRIPTION_EXPIRED
 \<and> query_oracle_sync scenario_service scenario_subscription
      (scenario_query\<lparr>qry_resolved := False\<rparr>)
      (scenario_payment\<lparr>coin_balance := 999\<rparr>) scenario_treasury scenario_clock scenario_ctx
        = Inl E_INSUFFICIENT_PAYMENT
 \<and> query_oracle_sync scenario_service scenario_subscription
      (scenario_query\<lparr>qry_resolved := False\<rparr>)
      scenario_payment scenario_treasury scenario_clock scenario_ctx
        = Inl E_QUERY_NOT_RESOLVED"
proof -
  have 1: "\<not> svc_active (scenario_service\<lparr>svc_active := False\<rparr>)"
    by simp
  have 2: "svc_active scenario_service
      \<and> (\<not> sub_active (scenario_subscription\<lparr>sub_service_id := derive_id [9] 9\<rparr>)
         \<or> clk_timestamp_ms (scenario_clock\<lparr>clk_timestamp_ms := 2592002001\<rparr>)
             > sub_end_time (scenario_subscription\<lparr>sub_service_id := derive_id [9] 9\<rparr>))"
    by (simp add: scenario_defs)
  have 3: "svc_active scenario_service
      \<and> sub_active (scenario_subscription\<lparr>sub_service_id := derive_id [9] 9\<rparr>)
      \<and> clk_timestamp_ms scenario_clock
           \<le> sub_end_time (scenario_subscription\<lparr>sub_service_id := derive_id [9] 9\<rparr>)
      \<and> sub_service_id (scenario_subscription\<lparr>sub_service_id := derive_id [9] 9\<rparr>)
           \<noteq> svc_id scenario_service"
    by (simp add: scenario_defs)
  have 4: "svc_active scenario_service \<and> sub_active scenario_subscription
      \<and> clk_timestamp_ms scenario_clock \<le> sub_end_time scenario_subscription
      \<and> sub_service_id scenario_subscription = svc_id scenario_service
      \<and> ctx_sender provider_ctx \<noteq> sub_subscriber scenario_subscription"
    by (simp add: scenario_defs)
  have 5: "svc_active scenario_service \<and> sub_active scenario_subscription
      \<and> clk_timestamp_ms scenario_clock \<le> sub_end_time scenario_subscription
      \<and> sub_service_id scenario_subscription = svc_id scenario_service
      \<and> ctx_sender scenario_ctx = sub_subscriber scenario_subscription
      \<and> coin_value (scenario_payment\<lparr>coin_balance := 999\<rparr>)
           < svc_price_per_query scenario_service"
    by (simp add: scenario_defs coin_value_def)
  have 6: "svc_active scenario_service \<and> sub_active scenario_subscription
      \<and> clk_timestamp_ms scenario_clock \<le> sub_end_time scenario_subscription
      \<and> sub_service_id scenario_subscription = svc_id scenario_service
      \<and> ctx_sender scenario_ctx = sub_subscriber scenario_subscription
      \<and> svc_price_per_query scenario_service \<le> coin_value scenario_payment
      \<and> \<not> qry_resolved (scenario_query\<lparr>qry_resolved := False\<rparr>)"
    by (simp add: scenario_defs coin_value_def)
  show ?thesis
    using check_order [THEN conjunct1, rule_format, OF 1]
      check_order [THEN conjunct2, THEN conjunct1, rule_format, OF 2]
      check_order [THEN conjunct2, THEN conjunct2, THEN conjunct1, rule_format, OF 3]
      check_order [THEN conjunct2, THEN conjunct2, THEN conjunct2, THEN conjunct1, rule_format, OF 4]
      check_order [THEN conjunct2, THEN conjunct2, THEN conjunct2, THEN conjunct2, THEN conjunct1,
          rule_format, OF 5]
      check_order [THEN conjunct2, THEN conjunct2, THEN conjunct2, THEN conjunct2, THEN conjunct2,
          rule_format, OF 6]
    by simp
qed

section \<open>Subscriptions\<close>

lemma create_subscription_Inr:
  assumes "create_subscription service ctx = Inr (sub, ctx')"
  shows "svc_active service \<and> sub_active sub
       \<and> sub_subscriber sub = ctx_sender ctx
       \<and> sub_service_id sub = svc_id service
       \<and> sub_start_time sub = ctx_epoch_timestamp_ms ctx
       \<and> sub_created_at sub = ctx_epoch_timestamp_ms ctx
       \<and> unat (sub_end_time sub) = unat (ctx_epoch_timestamp_ms ctx) + 2592000000"
  using assms
  by (auto simp: create_subscription_def Let_def and_then_eq_Inr object_new_def
      DEFAULT_SUBSCRIPTION_DURATION_def split: if_splits dest!: u64_add_Inr)

lemma created_subscription_run:
  "create_subscription scenario_service scenario_ctx
     = Inr (created_subscription, scenario_ctx\<lparr>ctx_ids_created := 1\<rparr>)"
  by (simp add: scenario_defs created_subscription_def create_subscription_def eval_defs DEFAULT_SUBSCRIPTION_DURATION_def)

text \<open>
  Claim C4, as stated: a subscription created at time \<open>T\<close> is valid if and only if it is
  active and \<open>T \<le> current_time \<le> T + 2,592,000,000\<close>, so \<^verbatim>\<open>is_subscription_valid\<close> is
  false for every \<open>current_time < T\<close>. The code never reads \<^verbatim>\<open>start_time\<close>: the
  subscription created at time 5000 is valid at time 4999.
\<close>
theorem subscription_lower_bound_counterexample:
  "create_subscription scenario_service scenario_ctx
     = Inr (created_subscription, scenario_ctx\<lparr>ctx_ids_created := 1\<rparr>)
   \<and> (4999 :: u64) < ctx_epoch_timestamp_ms scenario_ctx
   \<and> is_subscription_valid created_subscription 4999"
  by (simp add: scenario_defs created_subscription_def create_subscription_def eval_defs DEFAULT_SUBSCRIPTION_DURATION_def
      is_subscription_valid_def)

text \<open>
  Claim C4, amended. A subscription that \<^verbatim>\<open>create_subscription\<close> returns at time \<open>T\<close> is
  active, starts at \<open>T\<close>, and, whatever its \<^verbatim>\<open>active\<close> flag is set to, is valid if and
  only if the flag is true and \<open>current_time \<le> T + 2,592,000,000\<close>; there is no lower
  bound. In particular \<^verbatim>\<open>is_subscription_valid\<close> is false at
  \<open>T + 2,592,000,001\<close>, and from then on the settlement of an active service aborts with
  \<^verbatim>\<open>E_SUBSCRIPTION_EXPIRED\<close>.
\<close>
theorem subscription_window:
  assumes created: "create_subscription service ctx = Inr (sub, ctx')"
  shows "sub_active sub
       \<and> sub_start_time sub = ctx_epoch_timestamp_ms ctx
       \<and> (\<forall>a now. is_subscription_valid (sub\<lparr>sub_active := a\<rparr>) now
            = (a \<and> unat now \<le> unat (ctx_epoch_timestamp_ms ctx) + 2592000000))
       \<and> (\<forall>now. unat now = unat (ctx_epoch_timestamp_ms ctx) + 2592000001
            \<longrightarrow> \<not> is_subscription_valid sub now)
       \<and> (\<forall>service' query payment treasury clock ctx''.
             svc_active service'
             \<and> unat (clk_timestamp_ms clock) > unat (ctx_epoch_timestamp_ms ctx) + 2592000000
            \<longrightarrow> query_oracle_sync service' sub query payment treasury clock ctx''
                  = Inl E_SUBSCRIPTION_EXPIRED)"
proof -
  note c = create_subscription_Inr [OF created]
  have v: "is_subscription_valid (sub\<lparr>sub_active := a\<rparr>) now
            = (a \<and> unat now \<le> unat (ctx_epoch_timestamp_ms ctx) + 2592000000)" for a now
    using c by (simp add: is_subscription_valid_def word_le_nat_alt)
  have w: "\<not> is_subscription_valid sub now"
    if "unat now = unat (ctx_epoch_timestamp_ms ctx) + 2592000001" for now
    using c that by (simp add: is_subscription_valid_def word_le_nat_alt)
  have q: "query_oracle_sync service' sub query payment treasury clock ctx''
                  = Inl E_SUBSCRIPTION_EXPIRED"
    if "svc_active service'"
      "unat (clk_timestamp_ms clock) > unat (ctx_epoch_timestamp_ms ctx) + 2592000000"
    for service' query payment treasury clock ctx''
    using c that by (simp add: query_oracle_sync_def Let_def word_le_nat_alt)
  show ?thesis
    using c v w q by blast
qed

text \<open>The subscription created at time 5000: valid at 2,592,005,000, expired one later.\<close>
theorem subscription_window_witness:
  "create_subscription scenario_service scenario_ctx
     = Inr (created_subscription, scenario_ctx\<lparr>ctx_ids_created := 1\<rparr>)
   \<and> is_subscription_valid created_subscription 2592005000
   \<and> \<not> is_subscription_valid created_subscription 2592005001
   \<and> \<not> is_subscription_valid (created_subscription\<lparr>sub_active := False\<rparr>) 6000
   \<and> query_oracle_sync scenario_service created_subscription scenario_query scenario_payment
        scenario_treasury (scenario_clock\<lparr>clk_timestamp_ms := 2592005001\<rparr>) scenario_ctx
        = Inl E_SUBSCRIPTION_EXPIRED"
proof -
  note w = subscription_window [OF created_subscription_run]
  have t: "ctx_epoch_timestamp_ms scenario_ctx = 5000" "svc_active scenario_service"
    by (simp_all add: scenario_defs)
  have "is_subscription_valid (created_subscription\<lparr>sub_active := True\<rparr>) 2592005000"
    using w by (simp add: t)
  moreover have "created_subscription\<lparr>sub_active := True\<rparr> = created_subscription"
    by (simp add: scenario_defs created_subscription_def)
  moreover have "\<not> is_subscription_valid created_subscription 2592005001"
    using w by (simp add: t)
  moreover have "\<not> is_subscription_valid (created_subscription\<lparr>sub_active := False\<rparr>) 6000"
    using w by (simp add: t)
  moreover have "query_oracle_sync scenario_service created_subscription scenario_query
        scenario_payment scenario_treasury (scenario_clock\<lparr>clk_timestamp_ms := 2592005001\<rparr>)
        scenario_ctx = Inl E_SUBSCRIPTION_EXPIRED"
    using w by (simp add: t)
  ultimately show ?thesis
    using created_subscription_run by simp
qed

section \<open>Service creation\<close>

lemma create_service_simple_Inr:
  assumes "create_service_simple name service_type description price collateral ctx = Inr out"
  shows "0 < price \<and> MIN_COLLATERAL \<le> coin_value collateral
       \<and> svc_active (shared_service out)
       \<and> svc_total_queries (shared_service out) = 0
       \<and> svc_successful_queries (shared_service out) = 0
       \<and> svc_price_per_query (shared_service out) = price
       \<and> svc_provider (shared_service out) = ctx_sender ctx
       \<and> returned_collateral out = (collateral, ctx_sender ctx)"
  using assms
  by (auto simp: create_service_simple_def Let_def and_then_eq_Inr object_new_def
      split: if_splits)

lemma create_service_with_pool_Inr:
  assumes "create_service_with_pool name service_type description price collateral pool
             config_id documentation_url ctx = Inr (service, pool', ctx')"
  shows "0 < price \<and> MIN_COLLATERAL \<le> coin_value collateral
       \<and> svc_active service
       \<and> svc_total_queries service = 0
       \<and> svc_successful_queries service = 0
       \<and> svc_price_per_query service = price
       \<and> svc_provider service = ctx_sender ctx
       \<and> deposit_collateral pool (svc_id service) collateral = Inr pool'"
  using assms
  by (auto simp: create_service_with_pool_def Let_def and_then_eq_Inr object_new_def
      split: if_splits)

text \<open>
  Claim C5. On both creation paths (\<^verbatim>\<open>create_service_simple\<close>, and
  \<^verbatim>\<open>create_service_with_pool\<close> with its entry wrapper \<^verbatim>\<open>create_service_entry\<close>) the
  price is checked first and the collateral second: a price \<open>\<le> 0\<close> aborts with
  \<^verbatim>\<open>E_INVALID_PRICE\<close> and no service is created; with a valid price, a collateral coin
  below 10,000,000 aborts with \<^verbatim>\<open>E_INSUFFICIENT_COLLATERAL\<close> (so a collateral below the
  floor always aborts); and a service that is created is active with both counters zero.
\<close>
theorem service_creation_checks:
  "(price \<le> 0 \<longrightarrow>
      create_service_simple name service_type description price collateral ctx
        = Inl E_INVALID_PRICE
    \<and> create_service_with_pool name service_type description price collateral pool
        config_id documentation_url ctx = Inl E_INVALID_PRICE
    \<and> create_service_entry name service_type description price collateral pool ctx
        = Inl E_INVALID_PRICE)
 \<and> (0 < price \<and> coin_value collateral < 10000000 \<longrightarrow>
      create_service_simple name service_type description price collateral ctx
        = Inl E_INSUFFICIENT_COLLATERAL
    \<and> create_service_with_pool name service_type description price collateral pool
        config_id documentation_url ctx = Inl E_INSUFFICIENT_COLLATERAL
    \<and> create_service_entry name service_type description price collateral pool ctx
        = Inl E_INSUFFICIENT_COLLATERAL)
 \<and> (\<forall>out. create_service_simple name service_type description price collateral ctx = Inr out
      \<longrightarrow> svc_active (shared_service out)
        \<and> svc_total_queries (shared_service out) = 0
        \<and> svc_successful_queries (shared_service out) = 0)
 \<and> (\<forall>service pool' ctx'.
      create_service_with_pool name service_type description price collateral pool
        config_id documentation_url ctx = Inr (service, pool', ctx')
      \<longrightarrow> svc_active service
        \<and> svc_total_queries service = 0
        \<and> svc_successful_queries service = 0)
 \<and> (\<forall>service recipient pool' ctx'.
      create_service_entry name service_type description price collateral pool ctx
        = Inr ((service, recipient), pool', ctx')
      \<longrightarrow> svc_active service
        \<and> svc_total_queries service = 0
        \<and> svc_successful_queries service = 0)"
proof -
  have a: "price \<le> 0 \<longrightarrow>
      create_service_simple name service_type description price collateral ctx
        = Inl E_INVALID_PRICE
    \<and> create_service_with_pool name service_type description price collateral pool
        config_id documentation_url ctx = Inl E_INVALID_PRICE
    \<and> create_service_entry name service_type description price collateral pool ctx
        = Inl E_INVALID_PRICE"
    by (simp add: create_service_simple_def create_service_with_pool_def
        create_service_entry_def)
  have b: "0 < price \<and> coin_value collateral < 10000000 \<longrightarrow>
      create_service_simple name service_type description price collateral ctx
        = Inl E_INSUFFICIENT_COLLATERAL
    \<and> create_service_with_pool name service_type description price collateral pool
        config_id documentation_url ctx = Inl E_INSUFFICIENT_COLLATERAL
    \<and> create_service_entry name service_type description price collateral pool ctx
        = Inl E_INSUFFICIENT_COLLATERAL"
    by (simp add: create_service_simple_def create_service_with_pool_def
        create_service_entry_def MIN_COLLATERAL_def Let_def not_le)
  have c: "svc_active (shared_service out)
        \<and> svc_total_queries (shared_service out) = 0
        \<and> svc_successful_queries (shared_service out) = 0"
    if "create_service_simple name service_type description price collateral ctx = Inr out"
    for out
    using create_service_simple_Inr [OF that] by simp
  have d: "svc_active service
        \<and> svc_total_queries service = 0
        \<and> svc_successful_queries service = 0"
    if "create_service_with_pool name service_type description price collateral pool
        config_id documentation_url ctx = Inr (service, pool', ctx')"
    for service pool' ctx'
    using create_service_with_pool_Inr [OF that] by simp
  have e: "svc_active service
        \<and> svc_total_queries service = 0
        \<and> svc_successful_queries service = 0"
    if "create_service_entry name service_type description price collateral pool ctx
        = Inr ((service, recipient), pool', ctx')"
    for service recipient pool' ctx'
  proof -
    from that obtain ctx2 where
      "create_service_with_pool name service_type description price collateral pool
         None None ctx = Inr (service, pool', ctx2)"
      by (auto simp: create_service_entry_def and_then_eq_Inr)
    from create_service_with_pool_Inr [OF this] show ?thesis by simp
  qed
  show ?thesis
    using a b c d e by blast
qed

text \<open>Creating the scenario's service on either path.\<close>
lemma simple_run:
  "create_service_simple [0x42, 0x54, 0x43] [0x70] [0x64] 1000 scenario_collateral provider_ctx
     = Inr \<lparr>shared_service = scenario_service,
             returned_collateral = (scenario_collateral, 0xA11CE),
             simple_ctx = provider_ctx\<lparr>ctx_ids_created := 1\<rparr>\<rparr>"
  by (simp add: scenario_defs create_service_simple_def MIN_COLLATERAL_def string_utf8_def
      eval_defs)

lemma pooled_run:
  "create_service_with_pool [0x42, 0x54, 0x43] [0x70] [0x64] 1000 scenario_collateral
     empty_pool None None provider_ctx
     = Inr (scenario_service, scenario_pool, provider_ctx\<lparr>ctx_ids_created := 1\<rparr>)"
  by (simp add: scenario_defs create_service_with_pool_def MIN_COLLATERAL_def string_utf8_def
      deposit_collateral_def eval_defs)

text \<open>
  A zero price with too little collateral aborts on the price; a price of 1000 with
  9,999,999 aborts on the collateral; with 10,000,000 the service is created.
\<close>
theorem service_creation_checks_witness:
  "create_service_simple [0x42, 0x54, 0x43] [0x70] [0x64] 0
      (scenario_collateral\<lparr>coin_balance := 9999999\<rparr>) provider_ctx = Inl E_INVALID_PRICE
 \<and> create_service_with_pool [0x42, 0x54, 0x43] [0x70] [0x64] 0
      (scenario_collateral\<lparr>coin_balance := 9999999\<rparr>) empty_pool None None provider_ctx
      = Inl E_INVALID_PRICE
 \<and> create_service_simple [0x42, 0x54, 0x43] [0x70] [0x64] 1000
      (scenario_collateral\<lparr>coin_balance := 9999999\<rparr>) provider_ctx
      = Inl E_INSUFFICIENT_COLLATERAL
 \<and> create_service_with_pool [0x42, 0x54, 0x43] [0x70] [0x64] 1000
      (scenario_collateral\<lparr>coin_balance := 9999999\<rparr>) empty_pool None None provider_ctx
      = Inl E_INSUFFICIENT_COLLATERAL
 \<and> create_service_simple [0x42, 0x54, 0x43] [0x70] [0x64] 1000 scenario_collateral provider_ctx
     = Inr \<lparr>shared_service = scenario_service,
             returned_collateral = (scenario_collateral, 0xA11CE),
             simple_ctx = provider_ctx\<lparr>ctx_ids_created := 1\<rparr>\<rparr>
 \<and> create_service_with_pool [0x42, 0x54, 0x43] [0x70] [0x64] 1000 scenario_collateral
     empty_pool None None provider_ctx
     = Inr (scenario_service, scenario_pool, provider_ctx\<lparr>ctx_ids_created := 1\<rparr>)
 \<and> svc_active scenario_service
 \<and> svc_total_queries scenario_service = 0
 \<and> svc_successful_queries scenario_service = 0"
proof -
  have p0: "(0 :: u64) \<le> 0"
    by simp
  have p1: "(0 :: u64) < 1000 \<and> coin_value (scenario_collateral\<lparr>coin_balance := 9999999\<rparr>) < 10000000"
    by (simp add: scenario_defs coin_value_def)
  show ?thesis
    using service_creation_checks [THEN conjunct1, rule_format, OF p0]
      service_creation_checks [THEN conjunct2, THEN conjunct1, rule_format, OF p1]
      service_creation_checks [THEN conjunct2, THEN conjunct2, THEN conjunct2, THEN conjunct1,
        rule_format, OF pooled_run]
      simple_run pooled_run
    by simp
qed

section \<open>Query resolution\<close>

lemma update_query_data_Inr:
  assumes "update_query_data query r h e ctx = Inr query'"
  shows "qry_resolved query' \<and> qry_provider query' = qry_provider query
       \<and> ctx_sender ctx = qry_provider query"
  using assms
  by (auto simp: update_query_data_def and_then_eq_Inr split: if_splits)

lemma update_query_data_not_already:
  "update_query_data query r h e ctx \<noteq> Inl CORE_E_QUERY_ALREADY_RESOLVED"
  by (auto simp: update_query_data_def and_then_def string_utf8_def
      url_new_unsafe_from_bytes_def split: sum.splits if_splits)

lemma update_query_data_flag:
  "update_query_data (query\<lparr>qry_resolved := b\<rparr>) r h e ctx = update_query_data query r h e ctx"
  by (simp add: update_query_data_def)

lemma update_query_data_returns:
  assumes "ctx_sender ctx = qry_provider query" "valid_payload r h e"
  shows "\<exists>query'. update_query_data query r h e ctx = Inr query'"
  using assms
  by (simp add: update_query_data_def valid_payload_def string_utf8_def
      url_new_unsafe_from_bytes_def)

lemma update_many_not_already:
  "update_query_data_many query calls \<noteq> Inl CORE_E_QUERY_ALREADY_RESOLVED"
proof (induction calls arbitrary: query)
  case Nil
  show ?case by simp
next
  case (Cons c calls)
  obtain r h e ctx where c: "c = (r, h, e, ctx)"
    by (cases c) auto
  show ?case
  proof (cases "update_query_data query r h e ctx")
    case (Inl err)
    with update_query_data_not_already [of query r h e ctx] c show ?thesis by simp
  next
    case (Inr q')
    with Cons.IH [of q'] c show ?thesis by simp
  qed
qed

lemma update_many_resolved:
  "calls \<noteq> [] \<Longrightarrow> update_query_data_many query calls = Inr query' \<Longrightarrow> qry_resolved query'"
proof (induction calls arbitrary: query)
  case Nil
  then show ?case by simp
next
  case (Cons c calls)
  obtain r h e ctx where c: "c = (r, h, e, ctx)"
    by (cases c) auto
  from Cons.prems c obtain q1 where
    q1: "update_query_data query r h e ctx = Inr q1" and
    rest: "update_query_data_many q1 calls = Inr query'"
    by (auto simp: and_then_eq_Inr)
  show ?case
  proof (cases calls)
    case Nil
    with rest q1 update_query_data_Inr [OF q1] show ?thesis by simp
  next
    case (Cons d ds)
    with Cons.IH [OF _ rest] show ?thesis by simp
  qed
qed

lemma update_many_returns:
  "\<forall>(r, h, e, ctx) \<in> set calls. ctx_sender ctx = qry_provider query \<and> valid_payload r h e
     \<Longrightarrow> \<exists>query'. update_query_data_many query calls = Inr query'"
proof (induction calls arbitrary: query)
  case Nil
  show ?case by simp
next
  case (Cons c calls)
  obtain r h e ctx where c: "c = (r, h, e, ctx)"
    by (cases c) auto
  from Cons.prems c have here: "ctx_sender ctx = qry_provider query" "valid_payload r h e"
    by auto
  from update_query_data_returns [OF here] obtain q1 where
    q1: "update_query_data query r h e ctx = Inr q1" by blast
  have "qry_provider q1 = qry_provider query"
    using update_query_data_Inr [OF q1] by simp
  with Cons.prems have "\<forall>(r, h, e, ctx) \<in> set calls.
      ctx_sender ctx = qry_provider q1 \<and> valid_payload r h e"
    by auto
  from Cons.IH [OF this] q1 c show ?case by simp
qed

text \<open>
  Claim C6. \<^verbatim>\<open>resolve_query_entry\<close> on a query whose \<^verbatim>\<open>resolved\<close> flag is true aborts
  with \<^verbatim>\<open>E_QUERY_ALREADY_RESOLVED\<close>; in particular a second resolve after a successful
  one does. \<^verbatim>\<open>update_query_data\<close> never aborts with that code, does the same whatever
  the flag was, returns whenever the sender is the provider and the payload is
  well-formed, and leaves the flag true; so does any run of updates.
\<close>
theorem resolution_guard:
  "(qry_resolved query \<longrightarrow>
      resolve_query_entry query r h e ctx = Inl CORE_E_QUERY_ALREADY_RESOLVED)
 \<and> (\<forall>query'. resolve_query_entry query r h e ctx = Inr query' \<longrightarrow>
      resolve_query_entry query' r2 h2 e2 ctx2 = Inl CORE_E_QUERY_ALREADY_RESOLVED)
 \<and> update_query_data query r h e ctx \<noteq> Inl CORE_E_QUERY_ALREADY_RESOLVED
 \<and> update_query_data (query\<lparr>qry_resolved := b\<rparr>) r h e ctx = update_query_data query r h e ctx
 \<and> (ctx_sender ctx = qry_provider query \<and> valid_payload r h e \<longrightarrow>
      (\<exists>query'. update_query_data query r h e ctx = Inr query'))
 \<and> (\<forall>query'. update_query_data query r h e ctx = Inr query' \<longrightarrow> qry_resolved query')
 \<and> update_query_data_many query calls \<noteq> Inl CORE_E_QUERY_ALREADY_RESOLVED
 \<and> ((\<forall>(r, h, e, ctx) \<in> set calls. ctx_sender ctx = qry_provider query \<and> valid_payload r h e)
      \<longrightarrow> (\<exists>query'. update_query_data_many query calls = Inr query'))
 \<and> (\<forall>query'. calls \<noteq> [] \<and> update_query_data_many query calls = Inr query' \<longrightarrow>
      qry_resolved query')"
proof -
  have a: "qry_resolved query \<longrightarrow>
      resolve_query_entry query r h e ctx = Inl CORE_E_QUERY_ALREADY_RESOLVED"
    by (simp add: resolve_query_entry_def)
  have b: "resolve_query_entry query' r2 h2 e2 ctx2 = Inl CORE_E_QUERY_ALREADY_RESOLVED"
    if "resolve_query_entry query r h e ctx = Inr query'" for query'
  proof -
    from that have "qry_resolved query'"
      by (auto simp: resolve_query_entry_def and_then_eq_Inr split: if_splits)
    then show ?thesis by (simp add: resolve_query_entry_def)
  qed
  have b': "\<forall>query'. resolve_query_entry query r h e ctx = Inr query' \<longrightarrow>
      resolve_query_entry query' r2 h2 e2 ctx2 = Inl CORE_E_QUERY_ALREADY_RESOLVED"
    using b by blast
  have c: "update_query_data query r h e ctx \<noteq> Inl CORE_E_QUERY_ALREADY_RESOLVED"
    by (rule update_query_data_not_already)
  have d: "update_query_data (query\<lparr>qry_resolved := b\<rparr>) r h e ctx
             = update_query_data query r h e ctx"
    by (rule update_query_data_flag)
  have e: "ctx_sender ctx = qry_provider query \<and> valid_payload r h e \<longrightarrow>
      (\<exists>query'. update_query_data query r h e ctx = Inr query')"
    using update_query_data_returns by blast
  have f: "\<forall>query'. update_query_data query r h e ctx = Inr query' \<longrightarrow> qry_resolved query'"
    using update_query_data_Inr by blast
  have g: "update_query_data_many query calls \<noteq> Inl CORE_E_QUERY_ALREADY_RESOLVED"
    by (rule update_many_not_already)
  have h: "(\<forall>(r, h, e, ctx) \<in> set calls. ctx_sender ctx = qry_provider query \<and> valid_payload r h e)
      \<longrightarrow> (\<exists>query'. update_query_data_many query calls = Inr query')"
    using update_many_returns [of calls query] by blast
  have i: "\<forall>query'. calls \<noteq> [] \<and> update_query_data_many query calls = Inr query' \<longrightarrow>
      qry_resolved query'"
    using update_many_resolved by blast
  show ?thesis
    by (intro conjI a b' c d e f g h i)
qed

text \<open>Resolving the open query with empty payloads gives the resolved query of the scenario.\<close>
lemma resolve_run:
  "resolve_query_entry open_query [] [] [] provider_ctx = Inr scenario_query"
  by (simp add: scenario_defs resolve_query_entry_def string_utf8_def
      url_new_unsafe_from_bytes_def)

text \<open>
  The first resolve succeeds and every later one aborts; two updates in a row succeed,
  on the open query and on the resolved one alike.
\<close>
theorem resolution_guard_witness:
  "qry_resolved scenario_query
 \<and> resolve_query_entry scenario_query [] [] [] provider_ctx = Inl CORE_E_QUERY_ALREADY_RESOLVED
 \<and> resolve_query_entry open_query [] [] [] provider_ctx = Inr scenario_query
 \<and> resolve_query_entry scenario_query [0x31] [0x32] [0x33] provider_ctx
      = Inl CORE_E_QUERY_ALREADY_RESOLVED
 \<and> update_query_data_many open_query
      [([], [], [], provider_ctx), ([0x31], [0x32], [0x33], provider_ctx)]
      = Inr (scenario_query\<lparr>qry_result := Some [0x31], qry_result_hash := Some [0x32],
               qry_evidence_url := Some [0x33]\<rparr>)
 \<and> update_query_data_many scenario_query
      [([], [], [], provider_ctx), ([0x31], [0x32], [0x33], provider_ctx)]
      = Inr (scenario_query\<lparr>qry_result := Some [0x31], qry_result_hash := Some [0x32],
               qry_evidence_url := Some [0x33]\<rparr>)"
proof -
  have r: "qry_resolved scenario_query"
    by (simp add: scenario_defs)
  have v: "\<forall>(r, h, e, ctx) \<in> set [([], [], [], provider_ctx), ([0x31], [0x32], [0x33], provider_ctx)].
             ctx_sender ctx = qry_provider open_query \<and> valid_payload r h e"
    by (simp add: scenario_defs valid_payload_def)
  have twice: "resolve_query_entry scenario_query [] [] [] provider_ctx
                 = Inl CORE_E_QUERY_ALREADY_RESOLVED"
    using resolution_guard [THEN conjunct1, rule_format, OF r] .
  have again: "resolve_query_entry scenario_query r2 h2 e2 ctx2
                 = Inl CORE_E_QUERY_ALREADY_RESOLVED" for r2 h2 e2 ctx2
    using resolution_guard [THEN conjunct2, THEN conjunct1, rule_format, OF resolve_run] .
  have returns: "\<exists>query'. update_query_data_many open_query
      [([], [], [], provider_ctx), ([0x31], [0x32], [0x33], provider_ctx)] = Inr query'"
    using resolution_guard [THEN conjunct2, THEN conjunct2, THEN conjunct2, THEN conjunct2,
      THEN conjunct2, THEN conjunct2, THEN conjunct2, THEN conjunct1, THEN mp, OF v] .
  have m1: "update_query_data_many open_query
      [([], [], [], provider_ctx), ([0x31], [0x32], [0x33], provider_ctx)]
      = Inr (scenario_query\<lparr>qry_result := Some [0x31], qry_result_hash := Some [0x32],
               qry_evidence_url := Some [0x33]\<rparr>)"
    by (simp add: scenario_defs update_query_data_def string_utf8_def
        url_new_unsafe_from_bytes_def)
  have m2: "update_query_data_many scenario_query
      [([], [], [], provider_ctx), ([0x31], [0x32], [0x33], provider_ctx)]
      = Inr (scenario_query\<lparr>qry_result := Some [0x31], qry_result_hash := Some [0x32],
               qry_evidence_url := Some [0x33]\<rparr>)"
    by (simp add: scenario_defs update_query_data_def string_utf8_def
        url_new_unsafe_from_bytes_def)
  show ?thesis
    using r twice resolve_run again [of "[0x31]" "[0x32]" "[0x33]" provider_ctx] returns m1 m2
    by simp
qed

section \<open>Service counters\<close>

lemma sync_counters:
  assumes "query_oracle_sync s subscription query payment treasury clock ctx = Inr out"
  shows "unat (svc_total_queries (out_service out)) = unat (svc_total_queries s) + 1
       \<and> unat (svc_successful_queries (out_service out)) = unat (svc_successful_queries s) + 1"
proof -
  from sync_success [OF assms] obtain total' successful' where
    t: "u64_add (svc_total_queries s) 1 = Inr total'" and
    u: "u64_add (svc_successful_queries s) 1 = Inr successful'" and
    o: "out_service out = s\<lparr>svc_total_queries := total', svc_successful_queries := successful'\<rparr>"
    by blast
  from u64_add_Inr [OF t] u64_add_Inr [OF u] o show ?thesis by simp
qed

lemma other_calls_counters:
  assumes "call_result s c = Inr s'" "\<not> settles s c"
  shows "svc_total_queries s' = svc_total_queries s
       \<and> svc_successful_queries s' = svc_successful_queries s"
  using assms
  by (cases c)
     (auto simp: update_price_entry_def set_active_entry_def update_config_id_entry_def
        update_documentation_url_entry_def and_then_eq_Inr split: if_splits sum.splits)

lemma service_after_counters:
  "unat (svc_total_queries (service_after s c))
     = unat (svc_total_queries s) + (if settles s c then 1 else 0)
 \<and> unat (svc_successful_queries (service_after s c))
     = unat (svc_successful_queries s) + (if settles s c then 1 else 0)"
proof (cases "call_result s c")
  case (Inl e)
  then have "\<not> settles s c"
    by (cases c) (auto split: sum.splits)
  with Inl show ?thesis by (simp add: service_after_def)
next
  case (Inr s')
  show ?thesis
  proof (cases "settles s c")
    case True
    then obtain subscription query payment treasury clock ctx out where
      c: "c = Query_oracle_sync subscription query payment treasury clock ctx" and
      ok: "query_oracle_sync s subscription query payment treasury clock ctx = Inr out"
      by (cases c) (auto split: sum.splits)
    from Inr c ok have "s' = out_service out" by simp
    with sync_counters [OF ok] Inr True show ?thesis by (simp add: service_after_def)
  next
    case False
    with other_calls_counters [OF Inr False] Inr show ?thesis by (simp add: service_after_def)
  qed
qed

lemma run_calls_counters:
  "unat (svc_total_queries (run_calls s cs)) = unat (svc_total_queries s) + settlements s cs
 \<and> unat (svc_successful_queries (run_calls s cs))
     = unat (svc_successful_queries s) + settlements s cs"
proof (induction cs arbitrary: s)
  case Nil
  show ?case by simp
next
  case (Cons c cs)
  from Cons.IH [of "service_after s c"] service_after_counters [of s c]
  show ?case by simp
qed

lemma run_calls_append: "run_calls s (cs @ ds) = run_calls (run_calls s cs) ds"
  by (induction cs arbitrary: s) simp_all

text \<open>
  Claim C7. A successful \<^verbatim>\<open>query_oracle_sync\<close> adds exactly 1 to \<^verbatim>\<open>total_queries\<close> and
  to \<^verbatim>\<open>successful_queries\<close>; a call that aborts leaves the service as it was; a call
  that is not a successful settlement leaves both counters as they were. So after any
  run of calls each counter is its initial value plus the number of successful
  settlements in the run, and a counter never decreases as the run goes on.
\<close>
theorem counters_count_settlements:
  "(\<forall>out. query_oracle_sync s subscription query payment treasury clock ctx = Inr out \<longrightarrow>
      unat (svc_total_queries (out_service out)) = unat (svc_total_queries s) + 1
    \<and> unat (svc_successful_queries (out_service out)) = unat (svc_successful_queries s) + 1)
 \<and> (\<forall>e. call_result s c = Inl e \<longrightarrow> service_after s c = s)
 \<and> (\<not> settles s c \<longrightarrow>
      svc_total_queries (service_after s c) = svc_total_queries s
    \<and> svc_successful_queries (service_after s c) = svc_successful_queries s)
 \<and> unat (svc_total_queries (run_calls s cs)) = unat (svc_total_queries s) + settlements s cs
 \<and> unat (svc_successful_queries (run_calls s cs))
     = unat (svc_successful_queries s) + settlements s cs
 \<and> svc_total_queries (run_calls s cs) \<le> svc_total_queries (run_calls s (cs @ ds))
 \<and> svc_successful_queries (run_calls s cs) \<le> svc_successful_queries (run_calls s (cs @ ds))"
proof -
  have a: "\<forall>out. query_oracle_sync s subscription query payment treasury clock ctx = Inr out \<longrightarrow>
      unat (svc_total_queries (out_service out)) = unat (svc_total_queries s) + 1
    \<and> unat (svc_successful_queries (out_service out)) = unat (svc_successful_queries s) + 1"
    using sync_counters by blast
  have b: "\<forall>e. call_result s c = Inl e \<longrightarrow> service_after s c = s"
    by (simp add: service_after_def)
  have c: "\<not> settles s c \<longrightarrow>
      svc_total_queries (service_after s c) = svc_total_queries s
    \<and> svc_successful_queries (service_after s c) = svc_successful_queries s"
    using service_after_counters [of s c] by (simp add: word_unat_eq_iff)
  have d: "unat (svc_total_queries (run_calls s cs))
             = unat (svc_total_queries s) + settlements s cs"
    using run_calls_counters by blast
  have e: "unat (svc_successful_queries (run_calls s cs))
             = unat (svc_successful_queries s) + settlements s cs"
    using run_calls_counters by blast
  have f: "svc_total_queries (run_calls s cs) \<le> svc_total_queries (run_calls s (cs @ ds))"
    using run_calls_counters [of "run_calls s cs" ds]
    by (simp add: run_calls_append word_le_nat_alt)
  have g: "svc_successful_queries (run_calls s cs)
             \<le> svc_successful_queries (run_calls s (cs @ ds))"
    using run_calls_counters [of "run_calls s cs" ds]
    by (simp add: run_calls_append word_le_nat_alt)
  show ?thesis
    by (intro conjI a b c d e f g)
qed

text \<open>The run of the scenario holds two successful settlements.\<close>
lemma scenario_settlements: "settlements scenario_service scenario_calls = 2"
  by (simp add: scenario_calls_def service_after_def scenario_defs eval_defs
      update_config_id_entry_def update_price_entry_def string_utf8_def)

text \<open>
  In the scenario's run, two settlements succeed among five calls and both counters end
  at 2; the price change by a stranger aborts and leaves the service as it was.
\<close>
theorem counters_count_settlements_witness:
  "query_oracle_sync scenario_service scenario_subscription scenario_query scenario_payment
     scenario_treasury scenario_clock scenario_ctx = Inr scenario_outcome
 \<and> unat (svc_total_queries (out_service scenario_outcome)) = 1
 \<and> call_result scenario_service (Update_price 5 scenario_ctx) = Inl E_NOT_PROVIDER
 \<and> service_after scenario_service (Update_price 5 scenario_ctx) = scenario_service
 \<and> svc_total_queries (service_after scenario_service (Update_config_id [0x63] provider_ctx)) = 0
 \<and> settlements scenario_service scenario_calls = 2
 \<and> unat (svc_total_queries (run_calls scenario_service scenario_calls)) = 2
 \<and> unat (svc_successful_queries (run_calls scenario_service scenario_calls)) = 2"
proof -
  have fails: "call_result scenario_service (Update_price 5 scenario_ctx) = Inl E_NOT_PROVIDER"
    by (simp add: scenario_defs update_price_entry_def)
  have other: "\<not> settles scenario_service (Update_config_id [0x63] provider_ctx)"
    by simp
  have zero: "svc_total_queries scenario_service = 0" "svc_successful_queries scenario_service = 0"
    by (simp_all add: scenario_defs)
  show ?thesis
    using counters_count_settlements [THEN conjunct1, rule_format, OF scenario_run]
      counters_count_settlements [THEN conjunct2, THEN conjunct1, rule_format, OF fails]
      counters_count_settlements [THEN conjunct2, THEN conjunct2, THEN conjunct1, rule_format,
        OF other]
      counters_count_settlements [THEN conjunct2, THEN conjunct2, THEN conjunct2,
        of scenario_service scenario_calls]
      scenario_run fails scenario_settlements
    by (simp add: zero)
qed

section \<open>Provider gating\<close>

text \<open>
  Claim C8, as stated: every provider-gated operation, resolve included, fails with
  \<^verbatim>\<open>NotProvider\<close> when the caller is not the recorded provider. \<^verbatim>\<open>resolve_query_entry\<close>
  checks the \<^verbatim>\<open>resolved\<close> flag before the sender: on a resolved query a stranger gets
  \<^verbatim>\<open>E_QUERY_ALREADY_RESOLVED\<close>.
\<close>
theorem resolve_gate_counterexample:
  "ctx_sender scenario_ctx \<noteq> qry_provider scenario_query
 \<and> resolve_query_entry scenario_query [] [] [] scenario_ctx = Inl CORE_E_QUERY_ALREADY_RESOLVED
 \<and> resolve_query_entry scenario_query [] [] [] scenario_ctx \<noteq> Inl CORE_E_NOT_PROVIDER"
  by (simp add: scenario_defs resolve_query_entry_def)

text \<open>
  Claim C8, amended. When the sender is not the recorded provider, \<^verbatim>\<open>update_price_entry\<close>,
  \<^verbatim>\<open>set_active_entry\<close>, \<^verbatim>\<open>update_config_id_entry\<close>, \<^verbatim>\<open>update_documentation_url_entry\<close>
  and \<^verbatim>\<open>withdraw_collateral_entry\<close> abort with the marketplace's \<^verbatim>\<open>E_NOT_PROVIDER\<close>, the
  pool's \<^verbatim>\<open>withdraw_collateral\<close> (on an existing entry) with the treasury's,
  \<^verbatim>\<open>update_query_data\<close> with the core's, and \<^verbatim>\<open>resolve_query_entry\<close> with the core's
  when the query is not yet resolved and with \<^verbatim>\<open>E_QUERY_ALREADY_RESOLVED\<close> when it is.
  Every one of these is an abort, which leaves the resource as it was.
\<close>
theorem provider_gating:
  "(ctx_sender ctx \<noteq> svc_provider service \<longrightarrow>
      update_price_entry service new_price ctx = Inl E_NOT_PROVIDER
    \<and> set_active_entry service active ctx = Inl E_NOT_PROVIDER
    \<and> update_config_id_entry service config_id ctx = Inl E_NOT_PROVIDER
    \<and> update_documentation_url_entry service documentation_url ctx = Inl E_NOT_PROVIDER
    \<and> withdraw_collateral_entry service pool amount recipient ctx = Inl E_NOT_PROVIDER)
 \<and> (ctx_sender ctx \<noteq> provider \<and> pool_fields pool service_id \<noteq> None \<longrightarrow>
      withdraw_collateral pool service_id provider amount ctx = Inl TREASURY_E_NOT_PROVIDER)
 \<and> (ctx_sender ctx \<noteq> qry_provider query \<longrightarrow>
      update_query_data query result result_hash evidence_url_bytes ctx = Inl CORE_E_NOT_PROVIDER
    \<and> resolve_query_entry query result result_hash evidence_url_bytes ctx
        = Inl (if qry_resolved query then CORE_E_QUERY_ALREADY_RESOLVED else CORE_E_NOT_PROVIDER))"
  by (auto simp: update_price_entry_def set_active_entry_def update_config_id_entry_def
      update_documentation_url_entry_def withdraw_collateral_entry_def withdraw_collateral_def
      update_query_data_def resolve_query_entry_def)

text \<open>The subscriber of the scenario tries each operation on the provider's resources.\<close>
theorem provider_gating_witness:
  "ctx_sender scenario_ctx \<noteq> svc_provider scenario_service
 \<and> update_price_entry scenario_service 5 scenario_ctx = Inl E_NOT_PROVIDER
 \<and> set_active_entry scenario_service False scenario_ctx = Inl E_NOT_PROVIDER
 \<and> update_config_id_entry scenario_service [0x63] scenario_ctx = Inl E_NOT_PROVIDER
 \<and> update_documentation_url_entry scenario_service [0x68] scenario_ctx = Inl E_NOT_PROVIDER
 \<and> withdraw_collateral_entry scenario_service scenario_pool 1 0xB0B scenario_ctx
      = Inl E_NOT_PROVIDER
 \<and> withdraw_collateral scenario_pool (derive_id [1] 0) 0xA11CE 1 scenario_ctx
      = Inl TREASURY_E_NOT_PROVIDER
 \<and> update_query_data scenario_query [0x31] [] [] scenario_ctx = Inl CORE_E_NOT_PROVIDER
 \<and> resolve_query_entry open_query [0x31] [] [] scenario_ctx = Inl CORE_E_NOT_PROVIDER
 \<and> resolve_query_entry scenario_query [0x31] [] [] scenario_ctx
      = Inl CORE_E_QUERY_ALREADY_RESOLVED"
proof -
  have s: "ctx_sender scenario_ctx \<noteq> svc_provider scenario_service"
    by (simp add: scenario_defs)
  have p: "ctx_sender scenario_ctx \<noteq> 0xA11CE \<and> pool_fields scenario_pool (derive_id [1] 0) \<noteq> None"
    by (simp add: scenario_defs)
  have q: "ctx_sender scenario_ctx \<noteq> qry_provider scenario_query"
    by (simp add: scenario_defs)
  have q': "ctx_sender scenario_ctx \<noteq> qry_provider open_query"
    by (simp add: scenario_defs)
  have r: "qry_resolved scenario_query" "\<not> qry_resolved open_query"
    by (simp_all add: scenario_defs)
  show ?thesis
    using provider_gating [THEN conjunct1, rule_format, OF s]
      provider_gating [THEN conjunct2, THEN conjunct1, rule_format, OF p]
      provider_gating [THEN conjunct2, THEN conjunct2, rule_format, OF q]
      provider_gating [THEN conjunct2, THEN conjunct2, rule_format, OF q']
      s r
    by simp
qed

section \<open>Collateral pool\<close>

lemma coin_take_Inr:
  "coin_take b v ctx = Inr (c, rest, ctx') \<Longrightarrow>
     coin_balance c = v \<and> unat rest + unat v = unat b
     \<and> coin_id c = derive_id (ctx_tx_hash ctx) (ctx_ids_created ctx)"
  by (auto simp: coin_take_def object_new_def and_then_eq_Inr dest!: balance_split_Inr)

lemma withdraw_collateral_Inr:
  assumes "withdraw_collateral pool service_id provider amount ctx = Inr (coin, pool', ctx')"
  shows "\<exists>b. pool_fields pool service_id = Some b
           \<and> ctx_sender ctx = provider \<and> amount \<le> b
           \<and> unat (get_service_collateral pool' service_id) + unat amount = unat b
           \<and> coin_value coin = amount
           \<and> (\<forall>other. other \<noteq> service_id \<longrightarrow> pool_fields pool' other = pool_fields pool other)
           \<and> pool_total_collateral pool' = pool_total_collateral pool
           \<and> pool_id pool' = pool_id pool"
  using assms
  by (auto simp: withdraw_collateral_def Let_def and_then_eq_Inr get_service_collateral_def
      coin_value_def split: option.splits if_splits dest!: coin_take_Inr)

text \<open>
  Claim C9. \<^verbatim>\<open>withdraw_collateral\<close> checks in this order: the pool has an entry for the
  service id (else \<^verbatim>\<open>E_COLLATERAL_NOT_FOUND\<close>); the sender is the provider it was
  passed (else \<^verbatim>\<open>E_NOT_PROVIDER\<close>); the amount does not exceed the entry's balance (else
  \<^verbatim>\<open>E_INSUFFICIENT_BALANCE\<close>). When all three hold it returns, and whenever it returns
  the entry's balance is lower by exactly the amount, the coin returned holds exactly the
  amount and no other entry has changed. \<^verbatim>\<open>withdraw_collateral_entry\<close> returns only
  to the service's provider, with the same effect on the pool, and hands the coin to the
  recipient.
\<close>
theorem collateral_withdrawal:
  "(pool_fields pool service_id = None \<longrightarrow>
      withdraw_collateral pool service_id provider amount ctx
        = Inl TREASURY_E_COLLATERAL_NOT_FOUND)
 \<and> (pool_fields pool service_id \<noteq> None \<and> ctx_sender ctx \<noteq> provider \<longrightarrow>
      withdraw_collateral pool service_id provider amount ctx = Inl TREASURY_E_NOT_PROVIDER)
 \<and> (pool_fields pool service_id \<noteq> None \<and> ctx_sender ctx = provider
      \<and> get_service_collateral pool service_id < amount \<longrightarrow>
      withdraw_collateral pool service_id provider amount ctx
        = Inl TREASURY_E_INSUFFICIENT_BALANCE)
 \<and> (pool_fields pool service_id \<noteq> None \<and> ctx_sender ctx = provider
      \<and> amount \<le> get_service_collateral pool service_id \<longrightarrow>
      (\<exists>coin pool' ctx'.
         withdraw_collateral pool service_id provider amount ctx = Inr (coin, pool', ctx')))
 \<and> (\<forall>coin pool' ctx'.
      withdraw_collateral pool service_id provider amount ctx = Inr (coin, pool', ctx') \<longrightarrow>
        unat (get_service_collateral pool' service_id) + unat amount
          = unat (get_service_collateral pool service_id)
      \<and> coin_value coin = amount
      \<and> (\<forall>other. other \<noteq> service_id \<longrightarrow>
            get_service_collateral pool' other = get_service_collateral pool other))
 \<and> (\<forall>coin recipient' pool' ctx'.
      withdraw_collateral_entry service pool amount recipient ctx
        = Inr ((coin, recipient'), pool', ctx') \<longrightarrow>
        ctx_sender ctx = svc_provider service
      \<and> unat (get_service_collateral pool' (svc_id service)) + unat amount
          = unat (get_service_collateral pool (svc_id service))
      \<and> coin_value coin = amount \<and> recipient' = recipient)"
proof -
  have a: "pool_fields pool service_id = None \<longrightarrow>
      withdraw_collateral pool service_id provider amount ctx
        = Inl TREASURY_E_COLLATERAL_NOT_FOUND"
    by (simp add: withdraw_collateral_def)
  have b: "pool_fields pool service_id \<noteq> None \<and> ctx_sender ctx \<noteq> provider \<longrightarrow>
      withdraw_collateral pool service_id provider amount ctx = Inl TREASURY_E_NOT_PROVIDER"
    by (auto simp: withdraw_collateral_def)
  have c: "pool_fields pool service_id \<noteq> None \<and> ctx_sender ctx = provider
      \<and> get_service_collateral pool service_id < amount \<longrightarrow>
      withdraw_collateral pool service_id provider amount ctx
        = Inl TREASURY_E_INSUFFICIENT_BALANCE"
    by (auto simp: withdraw_collateral_def get_service_collateral_def Let_def not_le)
  have d: "pool_fields pool service_id \<noteq> None \<and> ctx_sender ctx = provider
      \<and> amount \<le> get_service_collateral pool service_id \<longrightarrow>
      (\<exists>coin pool' ctx'.
         withdraw_collateral pool service_id provider amount ctx = Inr (coin, pool', ctx'))"
    by (auto simp: withdraw_collateral_def get_service_collateral_def Let_def coin_take_def
        object_new_def balance_split_def)
  have e: "unat (get_service_collateral pool' service_id) + unat amount
          = unat (get_service_collateral pool service_id)
      \<and> coin_value coin = amount
      \<and> (\<forall>other. other \<noteq> service_id \<longrightarrow>
            get_service_collateral pool' other = get_service_collateral pool other)"
    if "withdraw_collateral pool service_id provider amount ctx = Inr (coin, pool', ctx')"
    for coin pool' ctx'
    using withdraw_collateral_Inr [OF that] by (auto simp: get_service_collateral_def)
  have e': "\<forall>coin pool' ctx'.
      withdraw_collateral pool service_id provider amount ctx = Inr (coin, pool', ctx') \<longrightarrow>
        unat (get_service_collateral pool' service_id) + unat amount
          = unat (get_service_collateral pool service_id)
      \<and> coin_value coin = amount
      \<and> (\<forall>other. other \<noteq> service_id \<longrightarrow>
            get_service_collateral pool' other = get_service_collateral pool other)"
    using e by blast
  have f: "ctx_sender ctx = svc_provider service
      \<and> unat (get_service_collateral pool' (svc_id service)) + unat amount
          = unat (get_service_collateral pool (svc_id service))
      \<and> coin_value coin = amount \<and> recipient' = recipient"
    if "withdraw_collateral_entry service pool amount recipient ctx
        = Inr ((coin, recipient'), pool', ctx')"
    for coin recipient' pool' ctx'
  proof -
    from that have s: "ctx_sender ctx = svc_provider service" and r: "recipient' = recipient"
      and w: "withdraw_collateral pool (svc_id service) (svc_provider service) amount ctx
                = Inr (coin, pool', ctx')"
      by (auto simp: withdraw_collateral_entry_def Let_def and_then_eq_Inr split: if_splits)
    from withdraw_collateral_Inr [OF w] s r show ?thesis
      by (auto simp: get_service_collateral_def)
  qed
  have f': "\<forall>coin recipient' pool' ctx'.
      withdraw_collateral_entry service pool amount recipient ctx
        = Inr ((coin, recipient'), pool', ctx') \<longrightarrow>
        ctx_sender ctx = svc_provider service
      \<and> unat (get_service_collateral pool' (svc_id service)) + unat amount
          = unat (get_service_collateral pool (svc_id service))
      \<and> coin_value coin = amount \<and> recipient' = recipient"
    using f by blast
  show ?thesis
    by (intro conjI a b c d e' f')
qed

text \<open>The provider withdraws 4,000,000 of the 10,000,000 locked for the service.\<close>
lemma withdraw_run:
  "withdraw_collateral scenario_pool (derive_id [1] 0) 0xA11CE 4000000 later_provider_ctx
     = Inr (\<lparr>coin_id = derive_id [10] 0, coin_balance = 4000000\<rparr>,
            scenario_pool\<lparr>pool_fields := [derive_id [1] 0 \<mapsto> 6000000]\<rparr>,
            later_provider_ctx\<lparr>ctx_ids_created := 1\<rparr>)"
  by (simp add: scenario_defs withdraw_collateral_def eval_defs)

lemma withdraw_entry_run:
  "withdraw_collateral_entry scenario_service scenario_pool 4000000 0xCAFE later_provider_ctx
     = Inr ((\<lparr>coin_id = derive_id [10] 0, coin_balance = 4000000\<rparr>, 0xCAFE),
            scenario_pool\<lparr>pool_fields := [derive_id [1] 0 \<mapsto> 6000000]\<rparr>,
            later_provider_ctx\<lparr>ctx_ids_created := 1\<rparr>)"
  by (simp add: scenario_defs withdraw_collateral_entry_def withdraw_collateral_def eval_defs
      Let_def)

text \<open>
  An unknown service id aborts first, even for a stranger; a stranger asking for more
  than is locked aborts on the sender; the provider asking for more than is locked
  aborts on the balance; the provider's withdrawal of 4,000,000 leaves 6,000,000.
\<close>
theorem collateral_withdrawal_witness:
  "withdraw_collateral scenario_pool (derive_id [9] 9) 0xA11CE 1 scenario_ctx
     = Inl TREASURY_E_COLLATERAL_NOT_FOUND
 \<and> withdraw_collateral scenario_pool (derive_id [1] 0) 0xA11CE 20000000 scenario_ctx
     = Inl TREASURY_E_NOT_PROVIDER
 \<and> withdraw_collateral scenario_pool (derive_id [1] 0) 0xA11CE 10000001 later_provider_ctx
     = Inl TREASURY_E_INSUFFICIENT_BALANCE
 \<and> withdraw_collateral scenario_pool (derive_id [1] 0) 0xA11CE 4000000 later_provider_ctx
     = Inr (\<lparr>coin_id = derive_id [10] 0, coin_balance = 4000000\<rparr>,
            scenario_pool\<lparr>pool_fields := [derive_id [1] 0 \<mapsto> 6000000]\<rparr>,
            later_provider_ctx\<lparr>ctx_ids_created := 1\<rparr>)
 \<and> unat (get_service_collateral
            (scenario_pool\<lparr>pool_fields := [derive_id [1] 0 \<mapsto> 6000000]\<rparr>) (derive_id [1] 0))
      + unat (4000000 :: u64)
     = unat (get_service_collateral scenario_pool (derive_id [1] 0))
 \<and> withdraw_collateral_entry scenario_service scenario_pool 4000000 0xCAFE later_provider_ctx
     = Inr ((\<lparr>coin_id = derive_id [10] 0, coin_balance = 4000000\<rparr>, 0xCAFE),
            scenario_pool\<lparr>pool_fields := [derive_id [1] 0 \<mapsto> 6000000]\<rparr>,
            later_provider_ctx\<lparr>ctx_ids_created := 1\<rparr>)"
proof -
  have 1: "pool_fields scenario_pool (derive_id [9] 9) = None"
    by (simp add: scenario_defs)
  have 2: "pool_fields scenario_pool (derive_id [1] 0) \<noteq> None \<and> ctx_sender scenario_ctx \<noteq> 0xA11CE"
    by (simp add: scenario_defs)
  have 3: "pool_fields scenario_pool (derive_id [1] 0) \<noteq> None \<and> ctx_sender later_provider_ctx = 0xA11CE
      \<and> get_service_collateral scenario_pool (derive_id [1] 0) < 10000001"
    by (simp add: scenario_defs get_service_collateral_def)
  have 4: "pool_fields scenario_pool (derive_id [1] 0) \<noteq> None \<and> ctx_sender later_provider_ctx = 0xA11CE
      \<and> 4000000 \<le> get_service_collateral scenario_pool (derive_id [1] 0)"
    by (simp add: scenario_defs get_service_collateral_def)
  have returns: "\<exists>coin pool' ctx'.
      withdraw_collateral scenario_pool (derive_id [1] 0) 0xA11CE 4000000 later_provider_ctx
        = Inr (coin, pool', ctx')"
    using collateral_withdrawal [THEN conjunct2, THEN conjunct2, THEN conjunct2, THEN conjunct1,
      rule_format, OF 4] .
  show ?thesis
    using collateral_withdrawal [THEN conjunct1, rule_format, OF 1]
      collateral_withdrawal [THEN conjunct2, THEN conjunct1, rule_format, OF 2]
      collateral_withdrawal [THEN conjunct2, THEN conjunct2, THEN conjunct1, rule_format, OF 3]
      collateral_withdrawal [THEN conjunct2, THEN conjunct2, THEN conjunct2, THEN conjunct2,
        THEN conjunct1, rule_format, OF withdraw_run]
      collateral_withdrawal [THEN conjunct2, THEN conjunct2, THEN conjunct2, THEN conjunct2,
        THEN conjunct2, rule_format, OF withdraw_entry_run]
      returns withdraw_run withdraw_entry_run
    by simp
qed

lemma deposit_collateral_total:
  "deposit_collateral pool service_id collateral = Inr pool'
     \<Longrightarrow> pool_total_collateral pool' = pool_total_collateral pool"
  by (auto simp: deposit_collateral_def Let_def and_then_eq_Inr split: option.splits)

lemma withdraw_collateral_total:
  "withdraw_collateral pool service_id provider amount ctx = Inr (coin, pool', ctx')
     \<Longrightarrow> pool_total_collateral pool' = pool_total_collateral pool"
  using withdraw_collateral_Inr by blast

lemma reachable_pool_total: "reachable_pool pool \<Longrightarrow> pool_total_collateral pool = 0"
proof (induction rule: reachable_pool.induct)
  case (created ctx pool ctx')
  then show ?case
    by (auto simp: create_collateral_pool_def object_new_def)
next
  case (deposited pool service_id collateral pool')
  then show ?case
    using deposit_collateral_total by simp
next
  case (withdrawn pool service_id provider amount ctx coin pool' ctx')
  then show ?case
    using withdraw_collateral_total by simp
qed

text \<open>
  Claim C10. Neither \<^verbatim>\<open>deposit_collateral\<close> nor \<^verbatim>\<open>withdraw_collateral\<close> writes the
  pool's \<^verbatim>\<open>total_collateral\<close>: both work on the per-service entries only. A pool starts
  with \<^verbatim>\<open>total_collateral\<close> zero, so \<^verbatim>\<open>get_total_collateral\<close> is 0 on every pool that
  deposits and withdrawals can reach, whatever has been deposited.
\<close>
theorem total_collateral_stays_zero:
  "(\<forall>pool'. deposit_collateral pool service_id collateral = Inr pool' \<longrightarrow>
      pool_total_collateral pool' = pool_total_collateral pool)
 \<and> (\<forall>coin pool' ctx'.
      withdraw_collateral pool service_id provider amount ctx = Inr (coin, pool', ctx') \<longrightarrow>
      pool_total_collateral pool' = pool_total_collateral pool)
 \<and> (reachable_pool pool \<longrightarrow> get_total_collateral pool = 0)"
  using deposit_collateral_total withdraw_collateral_total reachable_pool_total
  by (simp add: get_total_collateral_def)

text \<open>Creating the pool and depositing the scenario's collateral.\<close>
lemma empty_pool_run:
  "create_collateral_pool (later_provider_ctx\<lparr>ctx_tx_hash := [8]\<rparr>)
     = (empty_pool, later_provider_ctx\<lparr>ctx_tx_hash := [8], ctx_ids_created := 1\<rparr>)"
  by (simp add: scenario_defs create_collateral_pool_def object_new_def)

lemma deposit_run:
  "deposit_collateral empty_pool (derive_id [1] 0) scenario_collateral = Inr scenario_pool"
  by (simp add: scenario_defs deposit_collateral_def coin_into_balance_def)

text \<open>
  With 10,000,000 locked for the service, and again after 4,000,000 are withdrawn, the
  pool reports a total of 0.
\<close>
theorem total_collateral_stays_zero_witness:
  "deposit_collateral empty_pool (derive_id [1] 0) scenario_collateral = Inr scenario_pool
 \<and> reachable_pool scenario_pool
 \<and> get_service_collateral scenario_pool (derive_id [1] 0) = 10000000
 \<and> get_total_collateral scenario_pool = 0
 \<and> reachable_pool (scenario_pool\<lparr>pool_fields := [derive_id [1] 0 \<mapsto> 6000000]\<rparr>)
 \<and> get_total_collateral (scenario_pool\<lparr>pool_fields := [derive_id [1] 0 \<mapsto> 6000000]\<rparr>) = 0"
proof -
  have r0: "reachable_pool empty_pool"
    by (rule reachable_pool.created [OF empty_pool_run])
  have r1: "reachable_pool scenario_pool"
    by (rule reachable_pool.deposited [OF r0 deposit_run])
  have r2: "reachable_pool (scenario_pool\<lparr>pool_fields := [derive_id [1] 0 \<mapsto> 6000000]\<rparr>)"
    by (rule reachable_pool.withdrawn [OF r1 withdraw_run])
  have t1: "pool_total_collateral scenario_pool = pool_total_collateral empty_pool"
    using total_collateral_stays_zero [THEN conjunct1, rule_format, OF deposit_run] .
  have t2: "pool_total_collateral (scenario_pool\<lparr>pool_fields := [derive_id [1] 0 \<mapsto> 6000000]\<rparr>)
              = pool_total_collateral scenario_pool"
    using total_collateral_stays_zero [THEN conjunct2, THEN conjunct1, rule_format,
      OF withdraw_run] .
  have z1: "get_total_collateral scenario_pool = 0"
    using total_collateral_stays_zero [THEN conjunct2, THEN conjunct2, rule_format, OF r1] .
  have z2: "get_total_collateral (scenario_pool\<lparr>pool_fields := [derive_id [1] 0 \<mapsto> 6000000]\<rparr>) = 0"
    using total_collateral_stays_zero [THEN conjunct2, THEN conjunct2, rule_format, OF r2] .
  have c: "get_service_collateral scenario_pool (derive_id [1] 0) = 10000000"
    by (simp add: scenario_defs get_service_collateral_def)
  show ?thesis
    using deposit_run r1 r2 t1 t2 z1 z2 c by simp
qed

end
